theory Spec2Isabelle
  imports Main
begin

section \<open>Go library functions used by cli/cli_app.go\<close>

subsection \<open>Package strings\<close>

text \<open>Go strings are byte sequences, as \<^typ>\<open>string\<close> is here.\<close>

fun strings_HasPrefix :: "string \<Rightarrow> string \<Rightarrow> bool" where
  "strings_HasPrefix s [] = True"
| "strings_HasPrefix [] (p # ps) = False"
| "strings_HasPrefix (c # cs) (p # ps) = (c = p \<and> strings_HasPrefix cs ps)"

fun strings_Contains :: "string \<Rightarrow> string \<Rightarrow> bool" where
  "strings_Contains [] sub = (sub = [])"
| "strings_Contains (c # cs) sub = (strings_HasPrefix (c # cs) sub \<or> strings_Contains cs sub)"

subsection \<open>Package regexp: the part of the syntax the patterns of cli_app.go use\<close>

text \<open>
  A pattern of this fragment is a sequence of items: a literal byte, the classes
  \<^verbatim>\<open>[[:blank:]]\<close> and \<^verbatim>\<open>[[:space:]]\<close>, or \<^verbatim>\<open>.\<close> under a star or a plus, each
  taken once or under one of the repetition operators \<^verbatim>\<open>*\<close>, \<^verbatim>\<open>+\<close>, \<^verbatim>\<open>?\<close>.
  Every other construct of Go's syntax (groups, alternation, escapes, anchors, counted
  repetition, other bracket expressions, a lone dot, bytes outside ASCII) is not
  interpreted here: for a pattern that uses one, compiling and matching are answered by
  the environment (\<open>regexp_other\<close> below).
\<close>

datatype atom = Lit char | AnyNotNL | Blank | Space

datatype rep = Once | Star | Plus | Quest

type_synonym items = "(atom \<times> rep) list"

datatype regexp = Seq items | Opaque "string \<Rightarrow> bool"

definition backslash :: char where
  "backslash = CHR 0x5C"

text \<open>The bytes \<^verbatim>\<open>regexp.QuoteMeta\<close> escapes; every other ASCII byte stands for itself.\<close>

definition regexp_special :: "char \<Rightarrow> bool" where
  "regexp_special c = (c = backslash \<or> c \<in> set ''.+*?()|[]{}^$'')"

definition regexp_plain :: "char \<Rightarrow> bool" where
  "regexp_plain c = ((of_char c :: nat) < 128 \<and> \<not> regexp_special c)"

definition is_digit :: "char \<Rightarrow> bool" where
  "is_digit c = (48 \<le> (of_char c :: nat) \<and> (of_char c :: nat) \<le> 57)"

definition is_rep_op :: "char \<Rightarrow> bool" where
  "is_rep_op c = (c = CHR ''*'' \<or> c = CHR ''+'' \<or> c = CHR ''?'')"

definition rep_of :: "char \<Rightarrow> rep" where
  "rep_of c = (if c = CHR ''*'' then Star else if c = CHR ''+'' then Plus else Quest)"

text \<open>
  One atom at the head of a pattern, and the rest of the pattern; \<open>None\<close> when the head
  is outside the fragment. A brace that no digit follows cannot start a counted
  repetition and is a literal.
\<close>

definition parse_atom :: "string \<Rightarrow> (atom \<times> string) option" where
  "parse_atom p =
     (case p of
        [] \<Rightarrow> None
      | c # cs \<Rightarrow>
          if c = CHR ''['' then
            (if take 10 cs = ''[:blank:]]'' then Some (Blank, drop 10 cs)
             else if take 10 cs = ''[:space:]]'' then Some (Space, drop 10 cs)
             else None)
          else if c = CHR ''{'' then
            (case cs of
               [] \<Rightarrow> Some (Lit c, cs)
             | d # _ \<Rightarrow> if is_digit d then None else Some (Lit c, cs))
          else if c = CHR ''.'' then
            (case cs of
               [] \<Rightarrow> None
             | d # _ \<Rightarrow> if d = CHR ''*'' \<or> d = CHR ''+'' then Some (AnyNotNL, cs) else None)
          else if regexp_plain c then Some (Lit c, cs)
          else None)"

text \<open>After a repetition operator a single \<^verbatim>\<open>?\<close> only makes it non-greedy.\<close>

definition skip_lazy :: "string \<Rightarrow> string" where
  "skip_lazy p = (case p of [] \<Rightarrow> [] | q # t \<Rightarrow> if q = CHR ''?'' then t else q # t)"

definition cons_item :: "atom \<times> rep \<Rightarrow> (string + items) option \<Rightarrow> (string + items) option" where
  "cons_item i res =
     (case res of
        None \<Rightarrow> None
      | Some (Inl e) \<Rightarrow> Some (Inl e)
      | Some (Inr is) \<Rightarrow> Some (Inr (i # is)))"

lemma parse_atom_shorter: "parse_atom p = Some (a, rest) \<Longrightarrow> length rest < length p"
  by (auto simp: parse_atom_def split: list.splits if_splits)

lemma skip_lazy_shorter: "length (skip_lazy p) \<le> length p"
  by (auto simp: skip_lazy_def split: list.splits)

text \<open>
  The parser reads left to right, as Go's does. \<open>Some (Inl code)\<close> is a syntax error
  of Go's (a repetition operator with nothing to repeat, or one stacked on another),
  \<open>Some (Inr items)\<close> the compiled sequence, \<open>None\<close> a pattern outside the fragment.
\<close>

function regexp_parse :: "string \<Rightarrow> (string + items) option" where
  "regexp_parse [] = Some (Inr [])"
| "regexp_parse (c # cs) =
     (if is_rep_op c then Some (Inl ''missing argument to repetition operator'')
      else
        (case parse_atom (c # cs) of
           None \<Rightarrow> None
         | Some (a, rest) \<Rightarrow>
             (case rest of
                [] \<Rightarrow> Some (Inr [(a, Once)])
              | r # rs \<Rightarrow>
                  if is_rep_op r then
                    (case skip_lazy rs of
                       [] \<Rightarrow> Some (Inr [(a, rep_of r)])
                     | n # ns \<Rightarrow>
                         if is_rep_op n then Some (Inl ''invalid nested repetition operator'')
                         else cons_item (a, rep_of r) (regexp_parse (n # ns)))
                  else cons_item (a, Once) (regexp_parse (r # rs)))))"
  by pat_completeness auto
termination
proof (relation "measure length", goal_cases)
  case 1
  show ?case by simp
next
  case (2 c cs x a rest r rs n ns)
  from 2 have "length rest < length (c # cs)"
    using parse_atom_shorter by metis
  moreover have "length (n # ns) \<le> length rs"
    using 2 skip_lazy_shorter [of rs] by simp
  ultimately show ?case using 2 by simp
next
  case (3 c cs x a rest r rs)
  then have "length rest < length (c # cs)"
    using parse_atom_shorter by metis
  with 3 show ?case by simp
qed

declare regexp_parse.simps [simp del]

fun atom_matches :: "atom \<Rightarrow> char \<Rightarrow> bool" where
  "atom_matches (Lit l) c = (c = l)"
| "atom_matches AnyNotNL c = (c \<noteq> CHR 0x0A)"
| "atom_matches Blank c = (c = CHR '' '' \<or> c = CHR 0x09)"
| "atom_matches Space c =
     (c = CHR 0x09 \<or> c = CHR 0x0A \<or> c = CHR 0x0B \<or> c = CHR 0x0C \<or> c = CHR 0x0D \<or> c = CHR '' '')"

text \<open>Whether the items match a prefix of the text.\<close>

fun match_here :: "items \<Rightarrow> string \<Rightarrow> bool" where
  "match_here [] s = True"
| "match_here ((a, Once) # r) [] = False"
| "match_here ((a, Once) # r) (c # cs) = (atom_matches a c \<and> match_here r cs)"
| "match_here ((a, Quest) # r) [] = match_here r []"
| "match_here ((a, Quest) # r) (c # cs) =
     (match_here r (c # cs) \<or> (atom_matches a c \<and> match_here r cs))"
| "match_here ((a, Star) # r) [] = match_here r []"
| "match_here ((a, Star) # r) (c # cs) =
     (match_here r (c # cs) \<or> (atom_matches a c \<and> match_here ((a, Star) # r) cs))"
| "match_here ((a, Plus) # r) [] = False"
| "match_here ((a, Plus) # r) (c # cs) = (atom_matches a c \<and> match_here ((a, Star) # r) cs)"

text \<open>\<^verbatim>\<open>Regexp.Match\<close> is unanchored: a match may start at any position.\<close>

fun match_from :: "items \<Rightarrow> string \<Rightarrow> bool" where
  "match_from is [] = match_here is []"
| "match_from is (c # cs) = (match_here is (c # cs) \<or> match_from is cs)"

fun regexp_Match :: "regexp \<Rightarrow> string \<Rightarrow> bool" where
  "regexp_Match (Seq is) s = match_from is s"
| "regexp_Match (Opaque f) s = f s"

subsection \<open>Package go-version\<close>

text \<open>
  A parsed version: its numeric segments and its pre-release tag (empty for a release).
  The code compares versions only against the release \<^verbatim>\<open>v0.10.0\<close>, so \<^verbatim>\<open>Compare\<close> is
  given for a right operand without a pre-release tag, by its segments.

  \<^verbatim>\<open>Compare\<close> looks at the pre-release tags only when the two segment lists are
  identical (\<^verbatim>\<open>reflect.DeepEqual\<close>): then a version that carries a tag comes before the
  release, and a version without one is equal to it. On any other pair only the segments
  are compared, left to right; when one list ends first, the versions are equal if the
  rest of the other is all zeros, and the longer one is the greater otherwise. So
  \<^verbatim>\<open>0.10.0-beta1\<close> is below \<^verbatim>\<open>0.10.0\<close>, and \<^verbatim>\<open>0.10.0.0-beta1\<close> is not: its segment list
  is not that of \<^verbatim>\<open>0.10.0\<close>, and the segments compare equal. (The comparison of the two
  printed versions that \<^verbatim>\<open>Compare\<close> starts with returns 0 only where the segment lists
  and the tags are identical, where the rest returns 0 as well.)
\<close>

record Version =
  segments :: "int list"
  prerelease :: string

fun compareSegments :: "int list \<Rightarrow> int list \<Rightarrow> int" where
  "compareSegments [] other = (if list_all (\<lambda>y. y = 0) other then 0 else - 1)"
| "compareSegments (x # xs) [] = (if list_all (\<lambda>y. y = 0) (x # xs) then 0 else 1)"
| "compareSegments (x # xs) (y # ys) =
     (if x = y then compareSegments xs ys else if x < y then - 1 else 1)"

definition Compare :: "Version \<Rightarrow> int list \<Rightarrow> int" where
  "Compare v other =
     (if segments v = other then (if prerelease v = [] then 0 else - 1)
      else compareSegments (segments v) other)"

definition LessThan :: "Version \<Rightarrow> int list \<Rightarrow> bool" where
  "LessThan v other = (Compare v other < 0)"

definition v0_10_0 :: "int list" where
  "v0_10_0 = [0, 10, 0]"

section \<open>Data model\<close>

text \<open>An \<^verbatim>\<open>io.Writer\<close> handle, by identity.\<close>

datatype stream = Stream nat

text \<open>
  \<^verbatim>\<open>options.TerragruntOptions\<close>: the fields cli_app.go and its collaborators read or
  write.
\<close>

record TerragruntOptions =
  TerragruntConfigPath :: string
  TerraformVersion :: Version
  AutoInit :: bool
  NonInteractive :: bool
  TerraformCliArgs :: "string list"
  WorkingDir :: string
  IamRole :: string
  Env :: "string \<rightharpoonup> string"
  Writer :: stream
  ErrWriter :: stream

text \<open>\<^verbatim>\<open>remote.RemoteState\<close>: only the backend type is read here.\<close>

record RemoteState =
  Backend :: string

typedecl TerraformExtraArguments

record TerraformConfig =
  ExtraArgs :: "TerraformExtraArguments list"

text \<open>\<^verbatim>\<open>config.TerragruntConfig\<close>; a nil pointer is \<open>None\<close>.\<close>

record TerragruntConfig =
  Terraform :: "TerraformConfig option"
  RemoteState :: "RemoteState option"

text \<open>
  \<^verbatim>\<open>TerraformSource\<close> (cli/download_source.go): the canonical source URL as its
  \<^verbatim>\<open>String()\<close> renders it, the download directory and the working directory of the
  downloaded code.
\<close>

record TerraformSource =
  CanonicalSourceURL :: string
  DownloadDir :: string
  SourceWorkingDir :: string

datatype Stack = Stack string "string list"

datatype stack_op = Plan | Apply | Destroy | Output | Validate

text \<open>\<^verbatim>\<open>aws_helper.AssumeIamRole\<close>'s credentials.\<close>

record Credentials =
  AccessKeyId :: string
  SecretAccessKey :: string
  SessionToken :: string

text \<open>
  The error values of cli_app.go, and \<open>External\<close> for the error values of the
  packages it calls (which cannot build one of the four above: they do not import
  package cli). \<^verbatim>\<open>errors.WithStackTrace\<close> adds a trace and leaves the error as it is.
\<close>

datatype error =
    UnrecognizedCommand string
  | ArgumentNotAllowed (Argument: string) (Message: string)
  | InitNeededButDisabled string
  | BackendNotDefined (Opts: TerragruntOptions) (BackendType: string)
  | RegexpSyntaxError string
  | External string

text \<open>What a run does to the outside world, in order.\<close>

datatype event =
    Logged string
  | Prompted string
  | EngineRun TerragruntOptions "string list"
  | RemoteStateInitialized RemoteState TerragruntOptions
  | DirCreated string
  | StackRun stack_op Stack TerragruntOptions

text \<open>
  \<^verbatim>\<open>*options.TerragruntOptions\<close> is a pointer: the objects live in a heap, \<open>next_ref\<close>
  is the first address not yet allocated.
\<close>

type_synonym ref = nat

record state =
  heap :: "ref \<Rightarrow> TerragruntOptions"
  next_ref :: ref
  trace :: "event list"

definition modify :: "ref \<Rightarrow> (TerragruntOptions \<Rightarrow> TerragruntOptions) \<Rightarrow> state \<Rightarrow> state" where
  "modify r f s = s\<lparr>heap := (heap s)(r := f (heap s r))\<rparr>"

definition emit :: "event \<Rightarrow> state \<Rightarrow> state" where
  "emit e s = s\<lparr>trace := trace s @ [e]\<rparr>"

text \<open>
  The collaborators of cli_app.go that are not in this file: the file system, the
  engine, the remote state, the stack orchestrator, the user, and the library calls
  whose result the model does not compute. Each answers a call from the call's arguments
  and from what has happened so far (the trace).
\<close>

record ext =
  JoinPath :: "string \<Rightarrow> string \<Rightarrow> string"
  FileExists :: "event list \<Rightarrow> string \<Rightarrow> bool"
  ReadGlob :: "event list \<Rightarrow> string \<Rightarrow> string + string list"
  MkdirAll :: "event list \<Rightarrow> string \<Rightarrow> string option"
  regexp_other :: "string \<Rightarrow> string + (string \<Rightarrow> bool)"
  filterTerraformExtraArgs :: "TerragruntOptions \<Rightarrow> TerragruntConfig \<Rightarrow> string list"
  NeedsInit :: "event list \<Rightarrow> RemoteState \<Rightarrow> TerragruntOptions \<Rightarrow> string + bool"
  Initialize :: "event list \<Rightarrow> RemoteState \<Rightarrow> TerragruntOptions \<Rightarrow> string option"
  ToTerraformInitArgs :: "RemoteState \<Rightarrow> string list"
  RunTerraformCommand :: "event list \<Rightarrow> TerragruntOptions \<Rightarrow> string list \<Rightarrow> string option"
  FindStackInSubfolders :: "event list \<Rightarrow> TerragruntOptions \<Rightarrow> string + Stack"
  Stack_String :: "Stack \<Rightarrow> string"
  Stack_run :: "event list \<Rightarrow> stack_op \<Rightarrow> Stack \<Rightarrow> TerragruntOptions \<Rightarrow> string option"
  UserAnswer :: "event list \<Rightarrow> string \<Rightarrow> string + bool"
  ReadTerragruntConfig :: "event list \<Rightarrow> TerragruntOptions \<Rightarrow> string + TerragruntConfig"
  AssumeIamRole :: "event list \<Rightarrow> string \<Rightarrow> string + Credentials"
  getTerraformSourceUrl :: "TerragruntOptions \<Rightarrow> TerragruntConfig \<Rightarrow> string"
  downloadTerraformSource ::
    "string \<Rightarrow> ref \<Rightarrow> TerragruntConfig \<Rightarrow> state \<Rightarrow> error option \<times> state"

section \<open>Constants of cli_app.go\<close>

definition CMD_PLAN_ALL :: string where "CMD_PLAN_ALL = ''plan-all''"
definition CMD_APPLY_ALL :: string where "CMD_APPLY_ALL = ''apply-all''"
definition CMD_DESTROY_ALL :: string where "CMD_DESTROY_ALL = ''destroy-all''"
definition CMD_OUTPUT_ALL :: string where "CMD_OUTPUT_ALL = ''output-all''"
definition CMD_VALIDATE_ALL :: string where "CMD_VALIDATE_ALL = ''validate-all''"
definition CMD_INIT :: string where "CMD_INIT = ''init''"
definition CMD_SPIN_UP :: string where "CMD_SPIN_UP = ''spin-up''"
definition CMD_TEAR_DOWN :: string where "CMD_TEAR_DOWN = ''tear-down''"

lemmas CMD_defs =
  CMD_PLAN_ALL_def CMD_APPLY_ALL_def CMD_DESTROY_ALL_def CMD_OUTPUT_ALL_def
  CMD_VALIDATE_ALL_def CMD_INIT_def CMD_SPIN_UP_def CMD_TEAR_DOWN_def

definition MULTI_MODULE_COMMANDS :: "string list" where
  "MULTI_MODULE_COMMANDS =
     [CMD_APPLY_ALL, CMD_DESTROY_ALL, CMD_OUTPUT_ALL, CMD_PLAN_ALL, CMD_VALIDATE_ALL]"

definition DEPRECATED_COMMANDS :: "string \<rightharpoonup> string" where
  "DEPRECATED_COMMANDS = map_of [(CMD_SPIN_UP, CMD_APPLY_ALL), (CMD_TEAR_DOWN, CMD_DESTROY_ALL)]"

definition TERRAFORM_COMMANDS_THAT_USE_STATE :: "string list" where
  "TERRAFORM_COMMANDS_THAT_USE_STATE =
     [''init'', ''apply'', ''destroy'', ''env'', ''import'', ''graph'', ''output'', ''plan'',
      ''push'', ''refresh'', ''show'', ''taint'', ''untaint'', ''validate'', ''force-unlock'',
      ''state'']"

definition TERRAFORM_COMMANDS_THAT_DO_NOT_NEED_INIT :: "string list" where
  "TERRAFORM_COMMANDS_THAT_DO_NOT_NEED_INIT = [''version'']"

text \<open>
  \<^verbatim>\<open>MODULE_REGEX = regexp.MustCompile(`module[[:blank:]]+".+"`)\<close>, compiled
  (\<open>MODULE_REGEX_compiled\<close> below).
\<close>

definition MODULE_REGEX_pattern :: string where
  "MODULE_REGEX_pattern = ''module[[:blank:]]+\".+\"''"

definition MODULE_REGEX :: regexp where
  "MODULE_REGEX =
     Seq [(Lit CHR ''m'', Once), (Lit CHR ''o'', Once), (Lit CHR ''d'', Once),
          (Lit CHR ''u'', Once), (Lit CHR ''l'', Once), (Lit CHR ''e'', Once),
          (Blank, Plus), (Lit CHR 0x22, Once), (AnyNotNL, Plus), (Lit CHR 0x22, Once)]"

definition TERRAFORM_EXTENSION_GLOB :: string where
  "TERRAFORM_EXTENSION_GLOB = ''*.tf''"

definition INIT_DISABLED_MESSAGE :: string where
  "INIT_DISABLED_MESSAGE =
     ''Cannot continue because init is needed, but Auto-Init is disabled.  You must run 'terragrunt init' manually.''"

definition DESTROY_ALL_PROMPT :: string where
  "DESTROY_ALL_PROMPT =
     ''WARNING: Are you sure you want to run `terragrunt destroy` in each folder of the stack described above? There is no undo!''"

definition APPLY_ALL_PROMPT :: string where
  "APPLY_ALL_PROMPT =
     ''Are you sure you want to run 'terragrunt apply' in each folder of the stack described above?''"

section \<open>Helpers of the repository that are not in cli_app.go\<close>

text \<open>
  Modelled from the spec: \<^verbatim>\<open>firstArg\<close> (package cli, not in src/), the "first forwarded
  argument", that is the command token; the empty string when there is none.
\<close>

definition firstArg :: "string list \<Rightarrow> string" where
  "firstArg args = (case args of [] \<Rightarrow> [] | a # _ \<Rightarrow> a)"

text \<open>
  Modelled from the spec: \<^verbatim>\<open>util.ListContainsElement\<close> (package util, not in src/),
  the lookup of a token in one of the fixed tables.
\<close>

definition util_ListContainsElement :: "string list \<Rightarrow> string \<Rightarrow> bool" where
  "util_ListContainsElement list element = (element \<in> set list)"

text \<open>
  Modelled from the spec: \<^verbatim>\<open>util.Grep\<close> (package util, not in src/), the text scanner
  \<^verbatim>\<open>scanMatches(pattern, globPath) -> (bool, error)\<close>: whether the text of some file the
  glob names matches the pattern. The files a glob names, and their text, are the
  environment's (\<open>ReadGlob\<close>).
\<close>

definition util_Grep :: "ext \<Rightarrow> event list \<Rightarrow> regexp \<Rightarrow> string \<Rightarrow> error + bool" where
  "util_Grep X h regex glob =
     (case ReadGlob X h glob of
        Inl e \<Rightarrow> Inl (External e)
      | Inr texts \<Rightarrow> Inr (list_ex (regexp_Match regex) texts))"

text \<open>
  Modelled from the spec: \<^verbatim>\<open>TerragruntOptions.Clone\<close> (package options, not in src/):
  a new object, whose argument list and environment overlay are copies of the
  original's; the path of the configuration file is the one given.
\<close>

definition Clone :: "string \<Rightarrow> ref \<Rightarrow> state \<Rightarrow> ref \<times> state" where
  "Clone terragruntConfigPath r s =
     (next_ref s,
      s\<lparr>heap := (heap s)(next_ref s := (heap s r)\<lparr>TerragruntConfigPath := terragruntConfigPath\<rparr>),
        next_ref := Suc (next_ref s)\<rparr>)"

text \<open>
  Modelled from the spec: \<^verbatim>\<open>TerragruntOptions.InsertTerraformCliArgs\<close> (package options,
  not in src/): the arguments are spliced into the forwarded argument list behind the
  command token, which stays the first forwarded argument.
\<close>

definition insertArgs :: "string list \<Rightarrow> string list \<Rightarrow> string list" where
  "insertArgs argsToInsert args =
     (case args of [] \<Rightarrow> argsToInsert | command # rest \<Rightarrow> command # argsToInsert @ rest)"

definition InsertTerraformCliArgs :: "string list \<Rightarrow> ref \<Rightarrow> state \<Rightarrow> state" where
  "InsertTerraformCliArgs argsToInsert r s =
     modify r (\<lambda>opts. opts\<lparr>TerraformCliArgs := insertArgs argsToInsert (TerraformCliArgs opts)\<rparr>) s"

text \<open>
  Modelled from the spec: \<^verbatim>\<open>TerragruntOptions.AppendTerraformCliArgs\<close> (package options,
  not in src/): the arguments are added at the end of the forwarded argument list.
\<close>

definition AppendTerraformCliArgs :: "string list \<Rightarrow> ref \<Rightarrow> state \<Rightarrow> state" where
  "AppendTerraformCliArgs argsToAppend r s =
     modify r (\<lambda>opts. opts\<lparr>TerraformCliArgs := TerraformCliArgs opts @ argsToAppend\<rparr>) s"

text \<open>
  Modelled from the spec: \<^verbatim>\<open>shell.PromptUserForYesNo\<close> (package shell, not in src/), the
  prompt service \<^verbatim>\<open>confirm(message, options) -> (bool, error)\<close>: an interactive yes/no
  confirmation, bypassed (the answer is yes) when non-interactive mode is set.
\<close>

definition shell_PromptUserForYesNo :: "ext \<Rightarrow> string \<Rightarrow> ref \<Rightarrow> state \<Rightarrow> (error + bool) \<times> state" where
  "shell_PromptUserForYesNo X prompt r s =
     (if NonInteractive (heap s r) then (Inr True, s)
      else
        ((case UserAnswer X (trace s) prompt of Inl e \<Rightarrow> Inl (External e) | Inr yes \<Rightarrow> Inr yes),
         emit (Prompted prompt) s))"

text \<open>The calls into the other packages: the environment's answer, and the event.\<close>

definition shell_RunTerraformCommand :: "ext \<Rightarrow> ref \<Rightarrow> state \<Rightarrow> error option \<times> state" where
  "shell_RunTerraformCommand X r s =
     (map_option External (RunTerraformCommand X (trace s) (heap s r) (TerraformCliArgs (heap s r))),
      emit (EngineRun (heap s r) (TerraformCliArgs (heap s r))) s)"

definition RemoteState_Initialize :: "ext \<Rightarrow> RemoteState \<Rightarrow> ref \<Rightarrow> state \<Rightarrow> error option \<times> state" where
  "RemoteState_Initialize X remoteState r s =
     (map_option External (Initialize X (trace s) remoteState (heap s r)),
      emit (RemoteStateInitialized remoteState (heap s r)) s)"

definition os_MkdirAll :: "ext \<Rightarrow> string \<Rightarrow> state \<Rightarrow> error option \<times> state" where
  "os_MkdirAll X path s =
     (map_option External (MkdirAll X (trace s) path), emit (DirCreated path) s)"

definition Stack_call :: "ext \<Rightarrow> stack_op \<Rightarrow> Stack \<Rightarrow> ref \<Rightarrow> state \<Rightarrow> error option \<times> state" where
  "Stack_call X operation stack r s =
     (map_option External (Stack_run X (trace s) operation stack (heap s r)),
      emit (StackRun operation stack (heap s r)) s)"

text \<open>
  \<^verbatim>\<open>regexp.Compile\<close>. A leading \<^verbatim>\<open>(?m)\<close> only changes what the anchors mean, and the
  fragment has no anchors.
\<close>

definition regexp_Compile :: "ext \<Rightarrow> string \<Rightarrow> error + regexp" where
  "regexp_Compile X pattern =
     (case regexp_parse (if take 4 pattern = ''(?m)'' then drop 4 pattern else pattern) of
        Some (Inl code) \<Rightarrow> Inl (RegexpSyntaxError code)
      | Some (Inr is) \<Rightarrow> Inr (Seq is)
      | None \<Rightarrow>
          (case regexp_other X pattern of
             Inl e \<Rightarrow> Inl (External e)
           | Inr matches \<Rightarrow> Inr (Opaque matches)))"

section \<open>The functions of cli_app.go\<close>

text \<open>\<^verbatim>\<open>checkDeprecated\<close>: the replacement of a deprecated command, with a notice logged.\<close>

definition checkDeprecated :: "string \<Rightarrow> ref \<Rightarrow> state \<Rightarrow> string \<times> state" where
  "checkDeprecated command r s =
     (case DEPRECATED_COMMANDS command of
        Some newCommand \<Rightarrow>
          (newCommand,
           emit (Logged (command @ '' is deprecated; running '' @ newCommand @ '' instead.'' @ [CHR 0x0A])) s)
      | None \<Rightarrow> (command, s))"

text \<open>\<^verbatim>\<open>verifySourceDownloadArguments\<close>; the loop over \<^verbatim>\<open>TerraformCliArgs[1:]\<close>.\<close>

fun verifyArgs :: "string list \<Rightarrow> error option" where
  "verifyArgs [] = None"
| "verifyArgs (arg # rest) =
     (if strings_Contains arg ''-from-module'' then
        Some (ArgumentNotAllowed arg
          ''Option not allowed: %s.  Terragrunt will handle setting -from-module automatically.'')
      else if \<not> strings_HasPrefix arg ''-'' then
        Some (ArgumentNotAllowed arg
          ''Argument not allowed: %s.  Terragrunt will handle setting the module source and DIR arguments automatically.'')
      else verifyArgs rest)"

definition verifySourceDownloadArguments :: "bool \<Rightarrow> TerragruntOptions \<Rightarrow> error option" where
  "verifySourceDownloadArguments allowSourceDownload terragruntOptions =
     (if allowSourceDownload \<or> length (TerraformCliArgs terragruntOptions) \<le> 1 then None
      else verifyArgs (drop 1 (TerraformCliArgs terragruntOptions)))"

definition isMultiModuleCommand :: "string \<Rightarrow> bool" where
  "isMultiModuleCommand command = util_ListContainsElement MULTI_MODULE_COMMANDS command"

text \<open>\<^verbatim>\<open>remoteStateNeedsInit\<close>; \<open>h\<close> is the trace at the time of the call.\<close>

definition remoteStateNeedsInit ::
  "ext \<Rightarrow> event list \<Rightarrow> RemoteState option \<Rightarrow> TerragruntOptions \<Rightarrow> error + bool" where
  "remoteStateNeedsInit X h remoteState terragruntOptions =
     (case remoteState of
        None \<Rightarrow> Inr False
      | Some rs \<Rightarrow>
          if util_ListContainsElement TERRAFORM_COMMANDS_THAT_USE_STATE
               (firstArg (TerraformCliArgs terragruntOptions))
          then (case NeedsInit X h rs terragruntOptions of
                  Inl e \<Rightarrow> Inl (External e)
                | Inr needed \<Rightarrow> Inr needed)
          else Inr False)"

definition providersNeedInit :: "ext \<Rightarrow> event list \<Rightarrow> TerragruntOptions \<Rightarrow> bool" where
  "providersNeedInit X h terragruntOptions =
     (\<not> FileExists X h (JoinPath X (WorkingDir terragruntOptions) ''.terraform/plugins''))"

definition modulesNeedInit :: "ext \<Rightarrow> event list \<Rightarrow> TerragruntOptions \<Rightarrow> error + bool" where
  "modulesNeedInit X h terragruntOptions =
     (if FileExists X h (JoinPath X (WorkingDir terragruntOptions) ''.terraform/modules'')
      then Inr False
      else util_Grep X h MODULE_REGEX
             (WorkingDir terragruntOptions @ ''/'' @ TERRAFORM_EXTENSION_GLOB))"

definition needsInit :: "ext \<Rightarrow> event list \<Rightarrow> TerragruntOptions \<Rightarrow> TerragruntConfig \<Rightarrow> error + bool" where
  "needsInit X h terragruntOptions terragruntConfig =
     (if util_ListContainsElement TERRAFORM_COMMANDS_THAT_DO_NOT_NEED_INIT
           (firstArg (TerraformCliArgs terragruntOptions))
      then Inr False
      else if providersNeedInit X h terragruntOptions then Inr True
      else
        (case modulesNeedInit X h terragruntOptions of
           Inl err \<Rightarrow> Inl err
         | Inr modulesNeedsInit \<Rightarrow>
             if modulesNeedsInit then Inr True
             else remoteStateNeedsInit X h (RemoteState terragruntConfig) terragruntOptions))"

text \<open>
  \<^verbatim>\<open>checkTerraformCodeDefinesBackend\<close>. The error carries the options object it was
  called with.
\<close>

definition checkTerraformCodeDefinesBackend ::
  "ext \<Rightarrow> event list \<Rightarrow> TerragruntOptions \<Rightarrow> string \<Rightarrow> error option" where
  "checkTerraformCodeDefinesBackend X h terragruntOptions backendType =
     (case regexp_Compile X (''backend[[:blank:]]+\"'' @ backendType @ ''\"'') of
        Inl err \<Rightarrow> Some err
      | Inr terraformBackendRegexp \<Rightarrow>
          (case util_Grep X h terraformBackendRegexp (WorkingDir terragruntOptions @ ''/**/*.tf'') of
             Inl err \<Rightarrow> Some err
           | Inr definesBackend \<Rightarrow>
               if definesBackend then None
               else
                 (case regexp_Compile X
                         (''(?m)\"backend\":[[:space:]]*{[[:space:]]*\"'' @ backendType @ ''\"'') of
                    Inl err \<Rightarrow> Some err
                  | Inr terraformJSONBackendRegexp \<Rightarrow>
                      (case util_Grep X h terraformJSONBackendRegexp
                              (WorkingDir terragruntOptions @ ''/**/*.tf.json'') of
                         Inl err \<Rightarrow> Some err
                       | Inr definesJSONBackend \<Rightarrow>
                           if definesJSONBackend then None
                           else Some (BackendNotDefined terragruntOptions backendType)))))"

text \<open>\<^verbatim>\<open>prepareInitCommand\<close>.\<close>

definition prepareInitCommand ::
  "ext \<Rightarrow> ref \<Rightarrow> TerragruntConfig \<Rightarrow> bool \<Rightarrow> state \<Rightarrow> error option \<times> state" where
  "prepareInitCommand X r terragruntConfig allowSourceDownload s =
     (case verifySourceDownloadArguments allowSourceDownload (heap s r) of
        Some err \<Rightarrow> (Some err, s)
      | None \<Rightarrow>
          (case RemoteState terragruntConfig of
             None \<Rightarrow> (None, s)
           | Some rs \<Rightarrow>
               (case remoteStateNeedsInit X (trace s) (Some rs) (heap s r) of
                  Inl err \<Rightarrow> (Some err, s)
                | Inr needed \<Rightarrow>
                    (case (if needed then RemoteState_Initialize X rs r s else (None, s)) of
                       (Some err, s1) \<Rightarrow> (Some err, s1)
                     | (None, s1) \<Rightarrow>
                         (None, InsertTerraformCliArgs (ToTerraformInitArgs X rs) r s1)))))"

text \<open>The extra arguments of the configuration, lines 250 to 253 of \<^verbatim>\<open>runTerragruntWithConfig\<close>.\<close>

definition addExtraArgs :: "ext \<Rightarrow> ref \<Rightarrow> TerragruntConfig \<Rightarrow> state \<Rightarrow> state" where
  "addExtraArgs X r terragruntConfig s =
     (case Terraform terragruntConfig of
        None \<Rightarrow> s
      | Some terraform \<Rightarrow>
          if ExtraArgs terraform \<noteq> []
          then InsertTerraformCliArgs (filterTerraformExtraArgs X (heap s r) terragruntConfig) r s
          else s)"

text \<open>
  The options of the init sub-invocation, lines 390 to 396 of \<^verbatim>\<open>runTerraformInit\<close>: a
  clone of the caller's, running the init command, writing to the error stream.
\<close>

definition newInitOptions :: "ref \<Rightarrow> state \<Rightarrow> ref \<times> state" where
  "newInitOptions r s =
     (case Clone (TerragruntConfigPath (heap s r)) r s of
        (initOptions, s1) \<Rightarrow>
          (let s2 = modify initOptions (\<lambda>opts. opts\<lparr>TerraformCliArgs := [CMD_INIT]\<rparr>) s1;
               s3 = modify initOptions (\<lambda>opts. opts\<lparr>WorkingDir := WorkingDir (heap s2 r)\<rparr>) s2;
               s4 = modify initOptions (\<lambda>opts. opts\<lparr>Writer := ErrWriter opts\<rparr>) s3
           in (initOptions, s4)))"

text \<open>
  The arguments that download the source, lines 401 to 420 of \<^verbatim>\<open>runTerraformInit\<close>.
  \<^verbatim>\<open>version.NewVersion("v0.10.0")\<close> parses a constant and does not fail.
\<close>

definition addSourceArgs ::
  "ext \<Rightarrow> ref \<Rightarrow> ref \<Rightarrow> TerraformSource \<Rightarrow> state \<Rightarrow> error option \<times> state" where
  "addSourceArgs X r initOptions terraformSource s =
     (let s1 = modify initOptions (\<lambda>opts. opts\<lparr>WorkingDir := SourceWorkingDir terraformSource\<rparr>) s in
      case (if \<not> FileExists X (trace s1) (SourceWorkingDir terraformSource)
            then os_MkdirAll X (SourceWorkingDir terraformSource) s1
            else (None, s1)) of
        (Some err, s2) \<Rightarrow> (Some err, s2)
      | (None, s2) \<Rightarrow>
          (let s3 =
                 (if LessThan (TerraformVersion (heap s2 r)) v0_10_0
                  then AppendTerraformCliArgs [CanonicalSourceURL terraformSource] initOptions s2
                  else AppendTerraformCliArgs
                         [''-from-module='' @ CanonicalSourceURL terraformSource] initOptions s2)
           in (None, AppendTerraformCliArgs [DownloadDir terraformSource] initOptions s3)))"

text \<open>
  \<^verbatim>\<open>runTerragruntWithConfig\<close>, \<^verbatim>\<open>prepareNonInitCommand\<close> and \<^verbatim>\<open>runTerraformInit\<close> call each
  other. The order below decreases along every call: a run whose command token is init
  calls neither of the other two.
\<close>

definition call_rank ::
  "(ext \<times> ref \<times> TerragruntConfig \<times> bool \<times> state) +
   (ext \<times> ref \<times> TerragruntConfig \<times> state) +
   (ext \<times> ref \<times> TerragruntConfig \<times> TerraformSource option \<times> state) \<Rightarrow> nat" where
  "call_rank c =
     (case c of
        Inl (X, r, cfg, allow, s) \<Rightarrow>
          if firstArg (TerraformCliArgs (heap (addExtraArgs X r cfg s) r)) = CMD_INIT then 0 else 3
      | Inr (Inl _) \<Rightarrow> 2
      | Inr (Inr _) \<Rightarrow> 1)"

lemma firstArg_insertArgs:
  "firstArg args = CMD_INIT \<Longrightarrow> firstArg (insertArgs extra args) = CMD_INIT"
  by (cases args) (simp_all add: firstArg_def insertArgs_def CMD_INIT_def)

lemma firstArg_addExtraArgs:
  "firstArg (TerraformCliArgs (heap s r)) = CMD_INIT \<Longrightarrow>
   firstArg (TerraformCliArgs (heap (addExtraArgs X r cfg s) r)) = CMD_INIT"
  by (simp add: addExtraArgs_def InsertTerraformCliArgs_def modify_def firstArg_insertArgs
      split: option.splits)

lemma newInitOptions_args:
  "newInitOptions r s = (i, s') \<Longrightarrow> TerraformCliArgs (heap s' i) = [CMD_INIT]"
  by (auto simp: newInitOptions_def Clone_def modify_def Let_def)

lemma addSourceArgs_firstArg:
  "addSourceArgs X r i src s = (None, s') \<Longrightarrow> firstArg (TerraformCliArgs (heap s i)) = CMD_INIT \<Longrightarrow>
   firstArg (TerraformCliArgs (heap s' i)) = CMD_INIT"
  by (cases "TerraformCliArgs (heap s i)")
     (auto simp: addSourceArgs_def os_MkdirAll_def AppendTerraformCliArgs_def modify_def emit_def
        Let_def firstArg_def CMD_INIT_def split: if_splits option.splits prod.splits)

function runTerragruntWithConfig ::
    "ext \<Rightarrow> ref \<Rightarrow> TerragruntConfig \<Rightarrow> bool \<Rightarrow> state \<Rightarrow> error option \<times> state"
  and prepareNonInitCommand ::
    "ext \<Rightarrow> ref \<Rightarrow> TerragruntConfig \<Rightarrow> state \<Rightarrow> error option \<times> state"
  and runTerraformInit ::
    "ext \<Rightarrow> ref \<Rightarrow> TerragruntConfig \<Rightarrow> TerraformSource option \<Rightarrow> state \<Rightarrow> error option \<times> state"
where
  "runTerragruntWithConfig X r terragruntConfig allowSourceDownload s =
     (let s1 = addExtraArgs X r terragruntConfig s in
      if firstArg (TerraformCliArgs (heap s1 r)) = CMD_INIT then
        (case prepareInitCommand X r terragruntConfig allowSourceDownload s1 of
           (Some err, s2) \<Rightarrow> (Some err, s2)
         | (None, s2) \<Rightarrow> shell_RunTerraformCommand X r s2)
      else
        (case prepareNonInitCommand X r terragruntConfig s1 of
           (Some err, s2) \<Rightarrow> (Some err, s2)
         | (None, s2) \<Rightarrow> shell_RunTerraformCommand X r s2))"
| "prepareNonInitCommand X r terragruntConfig s =
     (case needsInit X (trace s) (heap s r) terragruntConfig of
        Inl err \<Rightarrow> (Some err, s)
      | Inr needed \<Rightarrow>
          if needed then runTerraformInit X r terragruntConfig None s else (None, s))"
| "runTerraformInit X r terragruntConfig terraformSource s =
     (if firstArg (TerraformCliArgs (heap s r)) \<noteq> CMD_INIT \<and> \<not> AutoInit (heap s r) then
        (Some (InitNeededButDisabled INIT_DISABLED_MESSAGE), s)
      else
        (case newInitOptions r s of
           (initOptions, s1) \<Rightarrow>
             (case terraformSource of
                None \<Rightarrow> runTerragruntWithConfig X initOptions terragruntConfig False s1
              | Some source \<Rightarrow>
                  (case addSourceArgs X r initOptions source s1 of
                     (Some err, s2) \<Rightarrow> (Some err, s2)
                   | (None, s2) \<Rightarrow> runTerragruntWithConfig X initOptions terragruntConfig True s2))))"
  by pat_completeness auto
termination
proof (relation "measure call_rank", goal_cases)
  case 1
  show ?case by simp
next
  case (2 X r terragruntConfig allowSourceDownload s x)
  then show ?case by (simp add: call_rank_def)
next
  case (3 X r terragruntConfig s x2 )
  show ?case by (simp add: call_rank_def)
next
  case (4 X r terragruntConfig terraformSource s x y)
  then have "firstArg (TerraformCliArgs (heap y x)) = CMD_INIT"
    using newInitOptions_args [of r s x y] by (simp add: firstArg_def)
  then show ?case
    by (simp add: call_rank_def firstArg_addExtraArgs)
next
  case (5 X r terragruntConfig terraformSource s x y x2 xa ya)
  then have "firstArg (TerraformCliArgs (heap y x)) = CMD_INIT"
    using newInitOptions_args [of r s x y] by (simp add: firstArg_def)
  with 5 have "firstArg (TerraformCliArgs (heap ya x)) = CMD_INIT"
    using addSourceArgs_firstArg [of X r x x2 y ya] by simp
  then show ?case
    by (simp add: call_rank_def firstArg_addExtraArgs)
qed

declare runTerragruntWithConfig.simps [simp del]
declare prepareNonInitCommand.simps [simp del]
declare runTerraformInit.simps [simp del]

text \<open>\<^verbatim>\<open>assumeRoleIfNecessary\<close>.\<close>

definition assumeRoleIfNecessary :: "ext \<Rightarrow> ref \<Rightarrow> state \<Rightarrow> error option \<times> state" where
  "assumeRoleIfNecessary X r s =
     (if IamRole (heap s r) = [] then (None, s)
      else
        (let s1 = emit (Logged (''Assuming IAM role '' @ IamRole (heap s r))) s in
         case AssumeIamRole X (trace s1) (IamRole (heap s1 r)) of
           Inl e \<Rightarrow> (Some (External e), s1)
         | Inr creds \<Rightarrow>
             (None,
              modify r (\<lambda>opts. opts\<lparr>Env := (Env opts)
                  (''AWS_ACCESS_KEY_ID'' \<mapsto> AccessKeyId creds,
                   ''AWS_SECRET_ACCESS_KEY'' \<mapsto> SecretAccessKey creds,
                   ''AWS_SESSION_TOKEN'' \<mapsto> SessionToken creds)\<rparr>) s1)))"

text \<open>
  \<^verbatim>\<open>runTerragrunt\<close>. \<^verbatim>\<open>downloadTerraformSource\<close> (cli/download_source.go) is not in
  src/: what it does to the options and to the world is the environment's.
\<close>

definition runTerragrunt :: "ext \<Rightarrow> ref \<Rightarrow> state \<Rightarrow> error option \<times> state" where
  "runTerragrunt X r s =
     (case ReadTerragruntConfig X (trace s) (heap s r) of
        Inl e \<Rightarrow> (Some (External e), s)
      | Inr terragruntConfig \<Rightarrow>
          (case assumeRoleIfNecessary X r s of
             (Some err, s1) \<Rightarrow> (Some err, s1)
           | (None, s1) \<Rightarrow>
               (case (let sourceUrl = getTerraformSourceUrl X (heap s1 r) terragruntConfig in
                      if sourceUrl \<noteq> []
                      then downloadTerraformSource X sourceUrl r terragruntConfig s1
                      else (None, s1)) of
                  (Some err, s2) \<Rightarrow> (Some err, s2)
                | (None, s2) \<Rightarrow>
                    (case (case RemoteState terragruntConfig of
                             None \<Rightarrow> None
                           | Some rs \<Rightarrow>
                               checkTerraformCodeDefinesBackend X (trace s2) (heap s2 r) (Backend rs)) of
                       Some err \<Rightarrow> (Some err, s2)
                     | None \<Rightarrow> runTerragruntWithConfig X r terragruntConfig False s2))))"

text \<open>The five multi-module commands.\<close>

definition planAll :: "ext \<Rightarrow> ref \<Rightarrow> state \<Rightarrow> error option \<times> state" where
  "planAll X r s =
     (case FindStackInSubfolders X (trace s) (heap s r) of
        Inl e \<Rightarrow> (Some (External e), s)
      | Inr stack \<Rightarrow> Stack_call X Plan stack r (emit (Logged (Stack_String X stack)) s))"

definition applyAll :: "ext \<Rightarrow> ref \<Rightarrow> state \<Rightarrow> error option \<times> state" where
  "applyAll X r s =
     (case FindStackInSubfolders X (trace s) (heap s r) of
        Inl e \<Rightarrow> (Some (External e), s)
      | Inr stack \<Rightarrow>
          (case shell_PromptUserForYesNo X APPLY_ALL_PROMPT r
                  (emit (Logged (Stack_String X stack)) s) of
             (Inl err, s1) \<Rightarrow> (Some err, s1)
           | (Inr shouldApplyAll, s1) \<Rightarrow>
               if shouldApplyAll then Stack_call X Apply stack r s1 else (None, s1)))"

definition destroyAll :: "ext \<Rightarrow> ref \<Rightarrow> state \<Rightarrow> error option \<times> state" where
  "destroyAll X r s =
     (case FindStackInSubfolders X (trace s) (heap s r) of
        Inl e \<Rightarrow> (Some (External e), s)
      | Inr stack \<Rightarrow>
          (case shell_PromptUserForYesNo X DESTROY_ALL_PROMPT r
                  (emit (Logged (Stack_String X stack)) s) of
             (Inl err, s1) \<Rightarrow> (Some err, s1)
           | (Inr shouldDestroyAll, s1) \<Rightarrow>
               if shouldDestroyAll then Stack_call X Destroy stack r s1 else (None, s1)))"

definition outputAll :: "ext \<Rightarrow> ref \<Rightarrow> state \<Rightarrow> error option \<times> state" where
  "outputAll X r s =
     (case FindStackInSubfolders X (trace s) (heap s r) of
        Inl e \<Rightarrow> (Some (External e), s)
      | Inr stack \<Rightarrow> Stack_call X Output stack r (emit (Logged (Stack_String X stack)) s))"

definition validateAll :: "ext \<Rightarrow> ref \<Rightarrow> state \<Rightarrow> error option \<times> state" where
  "validateAll X r s =
     (case FindStackInSubfolders X (trace s) (heap s r) of
        Inl e \<Rightarrow> (Some (External e), s)
      | Inr stack \<Rightarrow> Stack_call X Validate stack r (emit (Logged (Stack_String X stack)) s))"

definition runMultiModuleCommand :: "ext \<Rightarrow> string \<Rightarrow> ref \<Rightarrow> state \<Rightarrow> error option \<times> state" where
  "runMultiModuleCommand X command r s =
     (if command = CMD_PLAN_ALL then planAll X r s
      else if command = CMD_APPLY_ALL then applyAll X r s
      else if command = CMD_DESTROY_ALL then destroyAll X r s
      else if command = CMD_OUTPUT_ALL then outputAll X r s
      else if command = CMD_VALIDATE_ALL then validateAll X r s
      else (Some (UnrecognizedCommand command), s))"

definition runCommand :: "ext \<Rightarrow> string \<Rightarrow> ref \<Rightarrow> state \<Rightarrow> error option \<times> state" where
  "runCommand X command r s =
     (if isMultiModuleCommand command then runMultiModuleCommand X command r s
      else runTerragrunt X r s)"

text \<open>The message of each error, \<^verbatim>\<open>Error()\<close>; \<^verbatim>\<open>%s\<close> is replaced by the argument.\<close>

definition BackendNotDefined_Error :: "TerragruntOptions \<Rightarrow> string \<Rightarrow> string" where
  "BackendNotDefined_Error opts backendType =
     ''Found remote_state settings in '' @ TerragruntConfigPath opts @
     '' but no backend block in the Terraform code in '' @ WorkingDir opts @
     ''. You must define a backend block (it can be empty!) in your Terraform code or your remote state settings will have no effect! It should look something like this:''
     @ [CHR 0x0A, CHR 0x0A] @ ''terraform {'' @ [CHR 0x0A] @ ''  backend \"'' @ backendType @ ''\" {}''
     @ [CHR 0x0A] @ ''}'' @ [CHR 0x0A, CHR 0x0A]"

section \<open>Backend declarations in the text of a file\<close>

text \<open>
  What the two patterns of \<^verbatim>\<open>checkTerraformCodeDefinesBackend\<close> compile to when the
  backend type is made of plain characters (\<open>regexp_Compile_native\<close> and
  \<open>regexp_Compile_json\<close> below).
\<close>

definition native_items :: "string \<Rightarrow> items" where
  "native_items backendType =
     map (\<lambda>c. (Lit c, Once)) ''backend'' @ (Blank, Plus) #
     map (\<lambda>c. (Lit c, Once)) (CHR 0x22 # backendType @ [CHR 0x22])"

definition json_items :: "string \<Rightarrow> items" where
  "json_items backendType =
     map (\<lambda>c. (Lit c, Once)) ''\"backend\":'' @
     (Space, Star) # (Lit CHR ''{'', Once) # (Space, Star) #
     map (\<lambda>c. (Lit c, Once)) (CHR 0x22 # backendType @ [CHR 0x22])"

text \<open>
  A backend declaration, in the words of the claim. In Terraform's native syntax it is
  the text \<^verbatim>\<open>backend "B"\<close>: the keyword, one or more blanks (space or tab), the quoted
  type. In a \<^verbatim>\<open>*.tf.json\<close> file it is the text \<^verbatim>\<open>"backend": { "B"\<close>: the key with its
  colon, the brace and the quoted type, with any white space before and after the brace.
\<close>

definition blank_char :: "char \<Rightarrow> bool" where
  "blank_char c = (c = CHR '' '' \<or> c = CHR 0x09)"

definition space_char :: "char \<Rightarrow> bool" where
  "space_char c = (c \<in> set [CHR 0x09, CHR 0x0A, CHR 0x0B, CHR 0x0C, CHR 0x0D, CHR '' ''])"

definition native_backend_text :: "string \<Rightarrow> string \<Rightarrow> string" where
  "native_backend_text blanks backendType = ''backend'' @ blanks @ ''\"'' @ backendType @ ''\"''"

definition json_backend_text :: "string \<Rightarrow> string \<Rightarrow> string \<Rightarrow> string" where
  "json_backend_text space1 space2 backendType =
     ''\"backend\":'' @ space1 @ ''{'' @ space2 @ ''\"'' @ backendType @ ''\"''"

definition declares_native :: "string \<Rightarrow> string \<Rightarrow> bool" where
  "declares_native backendType s =
     (\<exists>blanks. blanks \<noteq> [] \<and> list_all blank_char blanks \<and>
        strings_Contains s (native_backend_text blanks backendType))"

definition declares_json :: "string \<Rightarrow> string \<Rightarrow> bool" where
  "declares_json backendType s =
     (\<exists>space1 space2. list_all space_char space1 \<and> list_all space_char space2 \<and>
        strings_Contains s (json_backend_text space1 space2 backendType))"

section \<open>Example inputs\<close>

text \<open>
  An options object for \<^verbatim>\<open>terragrunt apply\<close> against Terraform 0.9.5, a configuration
  without extra arguments or remote state, a heap that holds the one object, and an
  environment in which no path exists, no file matches a glob, every call succeeds and
  the user answers no.
\<close>

definition example_options :: TerragruntOptions where
  "example_options =
     \<lparr>TerragruntConfigPath = ''/live/terraform.tfvars'',
      TerraformVersion = \<lparr>segments = [0, 9, 5], prerelease = []\<rparr>,
      AutoInit = True,
      NonInteractive = False,
      TerraformCliArgs = [''apply''],
      WorkingDir = ''/live'',
      IamRole = [],
      Env = Map.empty,
      Writer = Stream 1,
      ErrWriter = Stream 2\<rparr>"

definition beta_options :: TerragruntOptions where
  "beta_options =
     example_options\<lparr>TerraformVersion := \<lparr>segments = [0, 10, 0, 0], prerelease = ''beta1''\<rparr>\<rparr>"

definition beta_state :: state where
  "beta_state = \<lparr>heap = (\<lambda>_. beta_options), next_ref = 1, trace = []\<rparr>"

definition example_config :: TerragruntConfig where
  "example_config = \<lparr>Terraform = None, RemoteState = None\<rparr>"

definition example_state :: state where
  "example_state = \<lparr>heap = (\<lambda>_. example_options), next_ref = 1, trace = []\<rparr>"

definition example_ext :: ext where
  "example_ext =
     \<lparr>JoinPath = (\<lambda>dir path. dir @ ''/'' @ path),
      FileExists = (\<lambda>_ _. False),
      ReadGlob = (\<lambda>_ _. Inr []),
      MkdirAll = (\<lambda>_ _. None),
      regexp_other = (\<lambda>_. Inl ''not a pattern of the fragment''),
      filterTerraformExtraArgs = (\<lambda>_ _. []),
      NeedsInit = (\<lambda>_ _ _. Inr False),
      Initialize = (\<lambda>_ _ _. None),
      ToTerraformInitArgs = (\<lambda>_. []),
      RunTerraformCommand = (\<lambda>_ _ _. None),
      FindStackInSubfolders = (\<lambda>_ _. Inr (Stack ''/live'' [])),
      Stack_String = (\<lambda>_. ''Stack at /live''),
      Stack_run = (\<lambda>_ _ _ _. None),
      UserAnswer = (\<lambda>_ _. Inr False),
      ReadTerragruntConfig = (\<lambda>_ _. Inr example_config),
      AssumeIamRole = (\<lambda>_ _. Inl ''no credentials''),
      getTerraformSourceUrl = (\<lambda>_ _. []),
      downloadTerraformSource = (\<lambda>_ _ _ s. (None, s))\<rparr>"

text \<open>A source to download, for the init sub-invocation.\<close>

definition example_source :: TerraformSource where
  "example_source =
     \<lparr>CanonicalSourceURL = ''git::https://example.com/modules.git'',
      DownloadDir = ''/tmp/download'',
      SourceWorkingDir = ''/tmp/download/app''\<rparr>"

text \<open>
  Two modules, one with an \<^verbatim>\<open>s3\<close> backend and one whose backend type has a plus sign,
  and an environment whose working directory holds the given \<^verbatim>\<open>*.tf\<close> and
  \<^verbatim>\<open>*.tf.json\<close> texts.
\<close>

definition s3_module :: string where
  "s3_module = ''terraform {'' @ [CHR 0x0A] @ ''  backend \"s3\" {}'' @ [CHR 0x0A] @ ''}''"

definition plus_module :: string where
  "plus_module = ''terraform {'' @ [CHR 0x0A] @ ''  backend \"a+b\" {}'' @ [CHR 0x0A] @ ''}''"

definition tree_ext :: "string list \<Rightarrow> string list \<Rightarrow> ext" where
  "tree_ext tfs jsons =
     example_ext\<lparr>ReadGlob := (\<lambda>_ glob.
        Inr (if glob = ''/live/**/*.tf'' then tfs
             else if glob = ''/live/**/*.tf.json'' then jsons else []))\<rparr>"

section \<open>The deprecated commands\<close>

text \<open>
  C9. \<^verbatim>\<open>checkDeprecated\<close> maps the token "spin-up" to "apply-all" and the token
  "tear-down" to "destroy-all"; every other token is returned unchanged.
\<close>

theorem checkDeprecated_token:
  "fst (checkDeprecated command r s) =
     (if command = ''spin-up'' then ''apply-all''
      else if command = ''tear-down'' then ''destroy-all''
      else command)"
  by (simp add: checkDeprecated_def DEPRECATED_COMMANDS_def CMD_defs)

section \<open>The arguments a user may not pass to init\<close>

text \<open>
  C1, as stated, fails: the first forwarded argument is the command token and is never
  examined, so the one-element lists \<^verbatim>\<open>["-from-module=x"]\<close> and \<^verbatim>\<open>["mydir"]\<close> are
  accepted even when download is not permitted.
\<close>

theorem verifySourceDownloadArguments_single_accepted:
  "verifySourceDownloadArguments False (example_options\<lparr>TerraformCliArgs := [''-from-module=x'']\<rparr>) = None
   \<and> verifySourceDownloadArguments False (example_options\<lparr>TerraformCliArgs := [''mydir'']\<rparr>) = None"
  by (simp add: verifySourceDownloadArguments_def)

text \<open>
  C1, amended. When download is not permitted, a forwarded-argument list in which
  "-from-module=x" follows the command token is rejected with an ArgumentNotAllowed error
  that names it, and so is one in which "mydir" follows the command token; the lists
  that hold one of the two alone are accepted, since their only element counts as the
  command token; when download is permitted, every list is accepted.
\<close>

theorem verifySourceDownloadArguments_after_command:
  "verifySourceDownloadArguments False
       (terragruntOptions\<lparr>TerraformCliArgs := command # ''-from-module=x'' # rest\<rparr>)
     = Some (ArgumentNotAllowed ''-from-module=x''
         ''Option not allowed: %s.  Terragrunt will handle setting -from-module automatically.'')
   \<and> verifySourceDownloadArguments False
       (terragruntOptions\<lparr>TerraformCliArgs := command # ''mydir'' # rest\<rparr>)
     = Some (ArgumentNotAllowed ''mydir''
         ''Argument not allowed: %s.  Terragrunt will handle setting the module source and DIR arguments automatically.'')
   \<and> verifySourceDownloadArguments False (terragruntOptions\<lparr>TerraformCliArgs := [''-from-module=x'']\<rparr>) = None
   \<and> verifySourceDownloadArguments False (terragruntOptions\<lparr>TerraformCliArgs := [''mydir'']\<rparr>) = None
   \<and> verifySourceDownloadArguments True terragruntOptions = None"
  by (simp add: verifySourceDownloadArguments_def)

section \<open>Whether init is needed\<close>

text \<open>
  C2. \<^verbatim>\<open>needsInit\<close> returns false when the command token is "version", whatever the
  state of the \<^verbatim>\<open>.terraform/plugins\<close> and \<^verbatim>\<open>.terraform/modules\<close> directories and whatever
  the remote-state configuration.
\<close>

theorem needsInit_version:
  assumes "firstArg (TerraformCliArgs terragruntOptions) = ''version''"
  shows "needsInit X h terragruntOptions terragruntConfig = Inr False"
  using assms
  by (simp add: needsInit_def util_ListContainsElement_def TERRAFORM_COMMANDS_THAT_DO_NOT_NEED_INIT_def)

theorem needsInit_version_witness:
  "firstArg (TerraformCliArgs (example_options\<lparr>TerraformCliArgs := [''version'', ''-json'']\<rparr>)) = ''version''
   \<and> needsInit example_ext [] (example_options\<lparr>TerraformCliArgs := [''version'', ''-json'']\<rparr>)
        (example_config\<lparr>RemoteState := Some \<lparr>Backend = ''s3''\<rparr>\<rparr>) = Inr False"
proof -
  have command: "firstArg (TerraformCliArgs (example_options\<lparr>TerraformCliArgs := [''version'', ''-json'']\<rparr>)) = ''version''"
    by (simp add: firstArg_def)
  show ?thesis
    using command needsInit_version [OF command] by simp
qed

text \<open>
  C3, as stated, fails: for the command "version" \<^verbatim>\<open>needsInit\<close> returns false although
  the \<^verbatim>\<open>.terraform/plugins\<close> directory is absent.
\<close>

theorem needsInit_providers_absent_version:
  "\<not> FileExists example_ext [] (JoinPath example_ext ''/live'' ''.terraform/plugins'')
   \<and> needsInit example_ext [] (example_options\<lparr>TerraformCliArgs := [''version''], WorkingDir := ''/live''\<rparr>)
        example_config = Inr False"
  by (simp add: needsInit_def util_ListContainsElement_def firstArg_def example_ext_def
      TERRAFORM_COMMANDS_THAT_DO_NOT_NEED_INIT_def)

text \<open>
  C3, amended. For every options object whose command token is not "version" and whose
  working directory lacks the plugin-cache directory (\<^verbatim>\<open>.terraform/plugins\<close> does not
  exist), \<^verbatim>\<open>needsInit\<close> returns true, whether or not the downloaded-modules directory
  exists.
\<close>

theorem needsInit_providers_absent:
  assumes "firstArg (TerraformCliArgs terragruntOptions) \<noteq> ''version''"
    and "\<not> FileExists X h (JoinPath X (WorkingDir terragruntOptions) ''.terraform/plugins'')"
  shows "needsInit X h terragruntOptions terragruntConfig = Inr True"
  using assms
  by (simp add: needsInit_def providersNeedInit_def util_ListContainsElement_def
      TERRAFORM_COMMANDS_THAT_DO_NOT_NEED_INIT_def)

theorem needsInit_providers_absent_witness:
  "firstArg (TerraformCliArgs example_options) \<noteq> ''version''
   \<and> \<not> FileExists (example_ext\<lparr>FileExists := (\<lambda>_ path. path = ''/live/.terraform/modules'')\<rparr>) []
         (JoinPath (example_ext\<lparr>FileExists := (\<lambda>_ path. path = ''/live/.terraform/modules'')\<rparr>)
            (WorkingDir example_options) ''.terraform/plugins'')
   \<and> needsInit (example_ext\<lparr>FileExists := (\<lambda>_ path. path = ''/live/.terraform/modules'')\<rparr>) []
        example_options example_config = Inr True"
proof -
  let ?X = "example_ext\<lparr>FileExists := (\<lambda>_ path. path = ''/live/.terraform/modules'')\<rparr>"
  have command: "firstArg (TerraformCliArgs example_options) \<noteq> ''version''"
    by (simp add: firstArg_def example_options_def)
  have absent: "\<not> FileExists ?X [] (JoinPath ?X (WorkingDir example_options) ''.terraform/plugins'')"
    by (simp add: example_ext_def example_options_def)
  show ?thesis
    using command absent needsInit_providers_absent [OF command absent] by simp
qed

section \<open>The init sub-invocation\<close>

subsection \<open>A run whose command token is init\<close>

text \<open>
  Splicing arguments in keeps the command token, so a run that starts with init takes the
  init branch: it prepares the init command and runs the engine, and calls neither
  \<^verbatim>\<open>prepareNonInitCommand\<close> nor \<^verbatim>\<open>runTerraformInit\<close>.
\<close>

lemma runTerragruntWithConfig_init_branch:
  assumes "firstArg (TerraformCliArgs (heap s r)) = CMD_INIT"
  shows "runTerragruntWithConfig X r cfg allow s =
     (case prepareInitCommand X r cfg allow (addExtraArgs X r cfg s) of
        (Some err, s2) \<Rightarrow> (Some err, s2)
      | (None, s2) \<Rightarrow> shell_RunTerraformCommand X r s2)"
  using assms
  by (simp add: runTerragruntWithConfig.simps firstArg_addExtraArgs)

lemma newInitOptions_explicit:
  "newInitOptions r s =
     (next_ref s,
      s\<lparr>heap := (heap s)(next_ref s := (heap s r)\<lparr>TerraformCliArgs := [CMD_INIT], Writer := ErrWriter (heap s r)\<rparr>),
        next_ref := Suc (next_ref s)\<rparr>)"
  by (simp add: newInitOptions_def Clone_def modify_def Let_def)

lemma addExtraArgs_frame:
  "next_ref (addExtraArgs X r cfg s) = next_ref s"
  "trace (addExtraArgs X r cfg s) = trace s"
  "r' \<noteq> r \<Longrightarrow> heap (addExtraArgs X r cfg s) r' = heap s r'"
  by (simp_all add: addExtraArgs_def InsertTerraformCliArgs_def modify_def split: option.splits)

lemma prepareInitCommand_frame:
  assumes "prepareInitCommand X r cfg allow s = (e, s')"
  shows "next_ref s' = next_ref s" and "r' \<noteq> r \<Longrightarrow> heap s' r' = heap s r'"
  using assms
  by (auto simp: prepareInitCommand_def RemoteState_Initialize_def InsertTerraformCliArgs_def
      modify_def emit_def split: option.splits sum.splits if_splits prod.splits)

lemma shell_RunTerraformCommand_frame:
  assumes "shell_RunTerraformCommand X r s = (e, s')"
  shows "next_ref s' = next_ref s" and "heap s' = heap s"
  using assms by (auto simp: shell_RunTerraformCommand_def emit_def)

lemma runTerragruntWithConfig_init_frame:
  assumes "firstArg (TerraformCliArgs (heap s r)) = CMD_INIT"
    and "runTerragruntWithConfig X r cfg allow s = (e, s')"
  shows "next_ref s' = next_ref s" and "r' \<noteq> r \<Longrightarrow> heap s' r' = heap s r'"
proof -
  obtain e1 s1 where p: "prepareInitCommand X r cfg allow (addExtraArgs X r cfg s) = (e1, s1)"
    by (cases "prepareInitCommand X r cfg allow (addExtraArgs X r cfg s)")
  have n1: "next_ref s1 = next_ref s"
    using prepareInitCommand_frame(1) [OF p] by (simp add: addExtraArgs_frame)
  have h1: "r' \<noteq> r \<Longrightarrow> heap s1 r' = heap s r'"
    using prepareInitCommand_frame(2) [OF p] by (simp add: addExtraArgs_frame)
  have res: "(e, s') = (case e1 of Some err \<Rightarrow> (Some err, s1) | None \<Rightarrow> shell_RunTerraformCommand X r s1)"
    using assms p by (simp add: runTerragruntWithConfig_init_branch split: option.splits)
  show "next_ref s' = next_ref s"
    using res n1 by (cases e1) (auto dest: shell_RunTerraformCommand_frame(1) [OF sym])
  show "r' \<noteq> r \<Longrightarrow> heap s' r' = heap s r'"
    using res h1 by (cases e1) (auto dest: shell_RunTerraformCommand_frame(2) [OF sym])
qed

lemma prepareInitCommand_error:
  "fst (prepareInitCommand X r cfg allow s) \<noteq> Some (InitNeededButDisabled m)"
proof -
  have v: "verifyArgs xs \<noteq> Some (InitNeededButDisabled m)" for xs
    by (induction xs) auto
  show ?thesis
    using v
    by (auto simp: prepareInitCommand_def verifySourceDownloadArguments_def remoteStateNeedsInit_def
        RemoteState_Initialize_def split: option.splits sum.splits if_splits prod.splits)
qed

lemma runTerragruntWithConfig_init_error:
  assumes "firstArg (TerraformCliArgs (heap s r)) = CMD_INIT"
  shows "fst (runTerragruntWithConfig X r cfg allow s) \<noteq> Some (InitNeededButDisabled m)"
proof -
  obtain e1 s1 where p: "prepareInitCommand X r cfg allow (addExtraArgs X r cfg s) = (e1, s1)"
    by (cases "prepareInitCommand X r cfg allow (addExtraArgs X r cfg s)")
  then have "e1 \<noteq> Some (InitNeededButDisabled m)"
    using prepareInitCommand_error [of X r cfg allow "addExtraArgs X r cfg s" m] by simp
  then show ?thesis
    using assms p
    by (cases e1) (auto simp: runTerragruntWithConfig_init_branch shell_RunTerraformCommand_def)
qed

lemma runTerraformInit_guard_fails:
  assumes "firstArg (TerraformCliArgs (heap s r)) \<noteq> CMD_INIT \<and> \<not> AutoInit (heap s r)"
  shows "runTerraformInit X r cfg src s = (Some (InitNeededButDisabled INIT_DISABLED_MESSAGE), s)"
  using assms by (simp add: runTerraformInit.simps)

lemma runTerraformInit_guard_passes:
  assumes "firstArg (TerraformCliArgs (heap s r)) = CMD_INIT \<or> AutoInit (heap s r)"
  shows "runTerraformInit X r cfg src s =
     (case src of
        None \<Rightarrow> runTerragruntWithConfig X (next_ref s) cfg False (snd (newInitOptions r s))
      | Some source \<Rightarrow>
          (case addSourceArgs X r (next_ref s) source (snd (newInitOptions r s)) of
             (Some err, s2) \<Rightarrow> (Some err, s2)
           | (None, s2) \<Rightarrow> runTerragruntWithConfig X (next_ref s) cfg True s2))"
  using assms by (cases src) (auto simp: runTerraformInit.simps newInitOptions_explicit)

lemma addSourceArgs_frame:
  assumes "addSourceArgs X r i src s = (e, s')"
  shows "next_ref s' = next_ref s" and "r' \<noteq> i \<Longrightarrow> heap s' r' = heap s r'"
  using assms
  by (auto simp: addSourceArgs_def os_MkdirAll_def AppendTerraformCliArgs_def modify_def emit_def
      Let_def split: if_splits option.splits prod.splits)

lemma init_clone_firstArg:
  "firstArg (TerraformCliArgs (heap (snd (newInitOptions r s)) (next_ref s))) = CMD_INIT"
  by (simp add: newInitOptions_explicit firstArg_def)

lemma runTerraformInit_frame:
  assumes "runTerraformInit X r cfg src s = (e, s')"
  shows "next_ref s \<le> next_ref s'" and "next_ref s' \<le> Suc (next_ref s)"
    and "r' < next_ref s \<Longrightarrow> heap s' r' = heap s r'"
proof -
  let ?i = "next_ref s" and ?s1 = "snd (newInitOptions r s)"
  have n1: "next_ref ?s1 = Suc (next_ref s)"
    and h1: "r' < next_ref s \<Longrightarrow> heap ?s1 r' = heap s r'"
    by (simp_all add: newInitOptions_explicit)
  have all: "next_ref s \<le> next_ref s' \<and> next_ref s' \<le> Suc (next_ref s) \<and>
      (r' < next_ref s \<longrightarrow> heap s' r' = heap s r')"
  proof (cases "firstArg (TerraformCliArgs (heap s r)) = CMD_INIT \<or> AutoInit (heap s r)")
    case False
    then show ?thesis
      using assms by (simp add: runTerraformInit.simps)
  next
    case True
    note unfolded = assms [unfolded runTerraformInit_guard_passes [OF True]]
    show ?thesis
    proof (cases src)
      case None
      with unfolded have run: "runTerragruntWithConfig X ?i cfg False ?s1 = (e, s')"
        by simp
      show ?thesis
        using runTerragruntWithConfig_init_frame [OF init_clone_firstArg run] n1 h1
        by auto
    next
      case (Some source)
      obtain e2 s2 where a: "addSourceArgs X r ?i source ?s1 = (e2, s2)"
        by (cases "addSourceArgs X r ?i source ?s1")
      have n2: "next_ref s2 = Suc (next_ref s)"
        and h2: "r' < next_ref s \<Longrightarrow> heap s2 r' = heap s r'"
        using addSourceArgs_frame [OF a] n1 h1 by auto
      show ?thesis
      proof (cases e2)
        case (Some err)
        with unfolded \<open>src = Some source\<close> a have "s' = s2" by simp
        with n2 h2 show ?thesis by simp
      next
        case None
        with unfolded \<open>src = Some source\<close> a
        have run: "runTerragruntWithConfig X ?i cfg True s2 = (e, s')" by simp
        have "firstArg (TerraformCliArgs (heap s2 ?i)) = CMD_INIT"
          using addSourceArgs_firstArg [of X r ?i source ?s1 s2] a None init_clone_firstArg
          by simp
        from runTerragruntWithConfig_init_frame [OF this run] n2 h2
        show ?thesis by auto
      qed
    qed
  qed
  from all show "next_ref s \<le> next_ref s'" and "next_ref s' \<le> Suc (next_ref s)"
    and "r' < next_ref s \<Longrightarrow> heap s' r' = heap s r'"
    by simp_all
qed

lemma addSourceArgs_error:
  "fst (addSourceArgs X r i src s) \<noteq> Some (InitNeededButDisabled m)"
  by (auto simp: addSourceArgs_def os_MkdirAll_def Let_def split: if_splits option.splits prod.splits)

lemma Writer_addExtraArgs: "Writer (heap (addExtraArgs X r cfg s) i) = Writer (heap s i)"
  by (simp add: addExtraArgs_def InsertTerraformCliArgs_def modify_def split: option.splits)

lemma Writer_prepareInitCommand:
  "Writer (heap (snd (prepareInitCommand X r cfg allow s)) i) = Writer (heap s i)"
  by (auto simp: prepareInitCommand_def RemoteState_Initialize_def InsertTerraformCliArgs_def
      modify_def emit_def split: option.splits sum.splits if_splits prod.splits)

lemma Writer_addSourceArgs:
  "Writer (heap (snd (addSourceArgs X r j src s)) i) = Writer (heap s i)"
  by (auto simp: addSourceArgs_def os_MkdirAll_def AppendTerraformCliArgs_def modify_def emit_def
      Let_def split: if_splits option.splits prod.splits)

lemma Writer_runTerragruntWithConfig_init:
  assumes "firstArg (TerraformCliArgs (heap s r)) = CMD_INIT"
  shows "Writer (heap (snd (runTerragruntWithConfig X r cfg allow s)) i) = Writer (heap s i)"
proof -
  obtain e1 s1 where p: "prepareInitCommand X r cfg allow (addExtraArgs X r cfg s) = (e1, s1)"
    by (cases "prepareInitCommand X r cfg allow (addExtraArgs X r cfg s)")
  have "Writer (heap s1 i) = Writer (heap s i)"
    using Writer_prepareInitCommand [of X r cfg allow "addExtraArgs X r cfg s" i] p
    by (simp add: Writer_addExtraArgs)
  then show ?thesis
    using p by (cases e1)
      (simp_all add: runTerragruntWithConfig_init_branch [OF assms] shell_RunTerraformCommand_def emit_def)
qed

lemma prepareNonInitCommand_next_ref:
  "next_ref (snd (prepareNonInitCommand X r cfg s)) \<le> Suc (next_ref s)"
proof -
  obtain e s' where run: "runTerraformInit X r cfg None s = (e, s')"
    by (cases "runTerraformInit X r cfg None s")
  show ?thesis
    using runTerraformInit_frame(2) [OF run]
    by (simp add: prepareNonInitCommand.simps run split: sum.splits)
qed

subsection \<open>The guard\<close>

text \<open>
  C6. \<^verbatim>\<open>runTerraformInit\<close> fails with an InitNeededButDisabled error, without constructing
  or running any sub-invocation, if and only if the original command (the first forwarded
  argument) is not the init command and the auto-init flag is disabled: in that case the
  state comes back as it was (no options object is allocated, nothing happens in the
  world); in the other case an options object is allocated for the sub-invocation and
  no error of that kind is returned.
\<close>

theorem runTerraformInit_disabled:
  "((\<exists>message. fst (runTerraformInit X r cfg src s) = Some (InitNeededButDisabled message)) \<longleftrightarrow>
      (firstArg (TerraformCliArgs (heap s r)) \<noteq> CMD_INIT \<and> \<not> AutoInit (heap s r)))
   \<and> (firstArg (TerraformCliArgs (heap s r)) \<noteq> CMD_INIT \<and> \<not> AutoInit (heap s r) \<longrightarrow>
        runTerraformInit X r cfg src s = (Some (InitNeededButDisabled INIT_DISABLED_MESSAGE), s))
   \<and> (firstArg (TerraformCliArgs (heap s r)) = CMD_INIT \<or> AutoInit (heap s r) \<longrightarrow>
        next_ref (snd (runTerraformInit X r cfg src s)) = Suc (next_ref s))"
proof (cases "firstArg (TerraformCliArgs (heap s r)) \<noteq> CMD_INIT \<and> \<not> AutoInit (heap s r)")
  case True
  then show ?thesis
    by (simp add: runTerraformInit_guard_fails)
next
  case False
  then have pass: "firstArg (TerraformCliArgs (heap s r)) = CMD_INIT \<or> AutoInit (heap s r)"
    by blast
  let ?i = "next_ref s" and ?s1 = "snd (newInitOptions r s)"
  have n1: "next_ref ?s1 = Suc (next_ref s)"
    by (simp add: newInitOptions_explicit)
  have "fst (runTerraformInit X r cfg src s) \<noteq> Some (InitNeededButDisabled m)
      \<and> next_ref (snd (runTerraformInit X r cfg src s)) = Suc (next_ref s)" for m
  proof (cases src)
    case None
    then have eq: "runTerraformInit X r cfg src s = runTerragruntWithConfig X ?i cfg False ?s1"
      by (simp add: runTerraformInit_guard_passes [OF pass])
    obtain e3 s3 where run: "runTerragruntWithConfig X ?i cfg False ?s1 = (e3, s3)"
      by (cases "runTerragruntWithConfig X ?i cfg False ?s1")
    have "next_ref s3 = next_ref ?s1"
      by (rule runTerragruntWithConfig_init_frame(1) [OF init_clone_firstArg run])
    moreover have "e3 \<noteq> Some (InitNeededButDisabled m)"
      using runTerragruntWithConfig_init_error [OF init_clone_firstArg, where X = X and cfg = cfg and allow = False and m = m and r1 = r and s1 = s]
      by (simp add: run)
    ultimately show ?thesis
      by (simp add: eq run n1)
  next
    case (Some source)
    obtain e2 s2 where a: "addSourceArgs X r ?i source ?s1 = (e2, s2)"
      by (cases "addSourceArgs X r ?i source ?s1")
    have n2: "next_ref s2 = Suc (next_ref s)"
      using addSourceArgs_frame(1) [OF a] n1 by simp
    show ?thesis
    proof (cases e2)
      case None
      have first: "firstArg (TerraformCliArgs (heap s2 ?i)) = CMD_INIT"
        using addSourceArgs_firstArg [of X r ?i source ?s1 s2] a None init_clone_firstArg
        by simp
      have eq: "runTerraformInit X r cfg src s = runTerragruntWithConfig X ?i cfg True s2"
        using a None Some by (simp add: runTerraformInit_guard_passes [OF pass])
      obtain e3 s3 where run: "runTerragruntWithConfig X ?i cfg True s2 = (e3, s3)"
        by (cases "runTerragruntWithConfig X ?i cfg True s2")
      have "next_ref s3 = next_ref s2"
        by (rule runTerragruntWithConfig_init_frame(1) [OF first run])
      moreover have "e3 \<noteq> Some (InitNeededButDisabled m)"
        using runTerragruntWithConfig_init_error [OF first, where X = X and cfg = cfg and allow = True and m = m]
        by (simp add: run)
      ultimately show ?thesis
        by (simp add: eq run n2)
    next
      case (Some err)
      then have eq: "runTerraformInit X r cfg src s = (Some err, s2)"
        using a \<open>src = Some source\<close> by (simp add: runTerraformInit_guard_passes [OF pass])
      have "err \<noteq> InitNeededButDisabled m"
        using a Some addSourceArgs_error [of X r ?i source ?s1 m] by simp
      then show ?thesis
        using n2 by (simp add: eq)
    qed
  qed
  then show ?thesis
    using False by auto
qed

theorem runTerraformInit_disabled_witness:
  "firstArg (TerraformCliArgs (heap (modify 0 (\<lambda>opts. opts\<lparr>AutoInit := False\<rparr>) example_state) 0)) \<noteq> CMD_INIT
   \<and> \<not> AutoInit (heap (modify 0 (\<lambda>opts. opts\<lparr>AutoInit := False\<rparr>) example_state) 0)
   \<and> runTerraformInit example_ext 0 example_config None
        (modify 0 (\<lambda>opts. opts\<lparr>AutoInit := False\<rparr>) example_state)
      = (Some (InitNeededButDisabled INIT_DISABLED_MESSAGE),
         modify 0 (\<lambda>opts. opts\<lparr>AutoInit := False\<rparr>) example_state)
   \<and> (firstArg (TerraformCliArgs (heap example_state 0)) = CMD_INIT \<or> AutoInit (heap example_state 0))
   \<and> next_ref (snd (runTerraformInit example_ext 0 example_config None example_state)) = 2
   \<and> fst (runTerraformInit example_ext 0 example_config None example_state) = None"
proof -
  let ?s = "modify 0 (\<lambda>opts. opts\<lparr>AutoInit := False\<rparr>) example_state"
  have off: "firstArg (TerraformCliArgs (heap ?s 0)) \<noteq> CMD_INIT \<and> \<not> AutoInit (heap ?s 0)"
    by (simp add: modify_def example_state_def example_options_def firstArg_def CMD_INIT_def)
  have on: "firstArg (TerraformCliArgs (heap example_state 0)) = CMD_INIT \<or> AutoInit (heap example_state 0)"
    by (simp add: example_state_def example_options_def)
  have run: "fst (runTerraformInit example_ext 0 example_config None example_state) = None"
    by (simp add: runTerraformInit_guard_passes [OF on] newInitOptions_explicit
        runTerragruntWithConfig_init_branch firstArg_def addExtraArgs_def
        prepareInitCommand_def verifySourceDownloadArguments_def shell_RunTerraformCommand_def
        example_config_def example_ext_def)
  show ?thesis
    using off on run
      runTerraformInit_disabled [of example_ext 0 example_config None ?s]
      runTerraformInit_disabled [of example_ext 0 example_config None example_state]
    by (simp add: example_state_def)
qed

subsection \<open>The arguments that download the source\<close>

text \<open>
  C4. When \<^verbatim>\<open>runTerraformInit\<close> is called with a source, the init sub-invocation it
  runs (\<^verbatim>\<open>runTerragruntWithConfig\<close> on the clone) has as its argument list the init
  command, then the canonical source URL (bare when the Terraform version is below
  v0.10.0, as 0.9.5 is; as \<^verbatim>\<open>-from-module=<url>\<close> from v0.10.0 on), then the download
  directory, the last argument, once. No sub-invocation is run in two cases only: the
  guard refuses (init is needed but disabled), or the source's working directory does not
  exist and cannot be created.

  Below is the order of go-version. A version of three or more segments (a, b, c and
  the rest) is below v0.10.0 exactly when (a, b, c) comes before (0, 10, 0), or the
  version is 0.10.0 itself with a pre-release tag; with further segments behind 0.10.0
  it is not below, whatever its tag. So 0.9.5 and 0.10.0-beta1 are below v0.10.0, and
  0.10.0, 0.11.3 and 0.10.0.0-beta1 are not.
\<close>

theorem runTerraformInit_source_arguments:
  "runTerraformInit X r cfg (Some source) s =
     (if firstArg (TerraformCliArgs (heap s r)) \<noteq> CMD_INIT \<and> \<not> AutoInit (heap s r) then
        (Some (InitNeededButDisabled INIT_DISABLED_MESSAGE), s)
      else if \<not> FileExists X (trace s) (SourceWorkingDir source) \<and>
              MkdirAll X (trace s) (SourceWorkingDir source) \<noteq> None then
        (map_option External (MkdirAll X (trace s) (SourceWorkingDir source)),
         s\<lparr>heap := (heap s)(next_ref s := (heap s r)
                \<lparr>TerraformCliArgs := [CMD_INIT],
                 WorkingDir := SourceWorkingDir source,
                 Writer := ErrWriter (heap s r)\<rparr>),
            next_ref := Suc (next_ref s),
            trace := trace s @ [DirCreated (SourceWorkingDir source)]\<rparr>)
      else
        runTerragruntWithConfig X (next_ref s) cfg True
          (s\<lparr>heap := (heap s)(next_ref s := (heap s r)
                 \<lparr>TerraformCliArgs :=
                    [CMD_INIT,
                     if LessThan (TerraformVersion (heap s r)) v0_10_0
                     then CanonicalSourceURL source
                     else ''-from-module='' @ CanonicalSourceURL source,
                     DownloadDir source],
                  WorkingDir := SourceWorkingDir source,
                  Writer := ErrWriter (heap s r)\<rparr>),
             next_ref := Suc (next_ref s),
             trace := (if FileExists X (trace s) (SourceWorkingDir source) then trace s
                       else trace s @ [DirCreated (SourceWorkingDir source)])\<rparr>))
   \<and> (\<forall>a b c rest tag.
         LessThan \<lparr>segments = a # b # c # rest, prerelease = tag\<rparr> v0_10_0 =
           (a < 0 \<or> a = 0 \<and> (b < 10 \<or> b = 10 \<and> (c < 0 \<or> c = 0 \<and> rest = [] \<and> tag \<noteq> []))))
   \<and> LessThan \<lparr>segments = [0, 9, 5], prerelease = []\<rparr> v0_10_0
   \<and> \<not> LessThan \<lparr>segments = [0, 10, 0], prerelease = []\<rparr> v0_10_0
   \<and> \<not> LessThan \<lparr>segments = [0, 11, 3], prerelease = []\<rparr> v0_10_0
   \<and> LessThan \<lparr>segments = [0, 10, 0], prerelease = ''beta1''\<rparr> v0_10_0
   \<and> \<not> LessThan \<lparr>segments = [0, 10, 0, 0], prerelease = ''beta1''\<rparr> v0_10_0"
proof -
  have order: "LessThan \<lparr>segments = a # b # c # rest, prerelease = tag\<rparr> v0_10_0 =
      (a < 0 \<or> a = 0 \<and> (b < 10 \<or> b = 10 \<and> (c < 0 \<or> c = 0 \<and> rest = [] \<and> tag \<noteq> [])))"
    for a b c rest tag
    by (cases rest) (auto simp: LessThan_def Compare_def v0_10_0_def)
  have versions: "(\<forall>a b c rest tag.
         LessThan \<lparr>segments = a # b # c # rest, prerelease = tag\<rparr> v0_10_0 =
           (a < 0 \<or> a = 0 \<and> (b < 10 \<or> b = 10 \<and> (c < 0 \<or> c = 0 \<and> rest = [] \<and> tag \<noteq> []))))
     \<and> LessThan \<lparr>segments = [0, 9, 5], prerelease = []\<rparr> v0_10_0
     \<and> \<not> LessThan \<lparr>segments = [0, 10, 0], prerelease = []\<rparr> v0_10_0
     \<and> \<not> LessThan \<lparr>segments = [0, 11, 3], prerelease = []\<rparr> v0_10_0
     \<and> LessThan \<lparr>segments = [0, 10, 0], prerelease = ''beta1''\<rparr> v0_10_0
     \<and> \<not> LessThan \<lparr>segments = [0, 10, 0, 0], prerelease = ''beta1''\<rparr> v0_10_0"
    using order by (simp add: LessThan_def Compare_def v0_10_0_def)
  have refused: "runTerraformInit X r cfg (Some source) s =
      (Some (InitNeededButDisabled INIT_DISABLED_MESSAGE), s)"
    if "firstArg (TerraformCliArgs (heap s r)) \<noteq> CMD_INIT \<and> \<not> AutoInit (heap s r)"
    using that by (rule runTerraformInit_guard_fails)
  have failed: "addSourceArgs X r (next_ref s) source (snd (newInitOptions r s)) =
      (map_option External (MkdirAll X (trace s) (SourceWorkingDir source)),
       s\<lparr>heap := (heap s)(next_ref s := (heap s r)
              \<lparr>TerraformCliArgs := [CMD_INIT],
               WorkingDir := SourceWorkingDir source,
               Writer := ErrWriter (heap s r)\<rparr>),
          next_ref := Suc (next_ref s),
          trace := trace s @ [DirCreated (SourceWorkingDir source)]\<rparr>)"
    if "\<not> FileExists X (trace s) (SourceWorkingDir source)"
      and "MkdirAll X (trace s) (SourceWorkingDir source) \<noteq> None"
    using that
    by (auto simp: addSourceArgs_def newInitOptions_explicit os_MkdirAll_def
        modify_def emit_def Let_def fun_eq_iff
        intro!: state.equality TerragruntOptions.equality)
  have built: "addSourceArgs X r (next_ref s) source (snd (newInitOptions r s)) =
     (None,
      s\<lparr>heap := (heap s)(next_ref s := (heap s r)
              \<lparr>TerraformCliArgs :=
                 [CMD_INIT,
                  if LessThan (TerraformVersion (heap s r)) v0_10_0
                  then CanonicalSourceURL source
                  else ''-from-module='' @ CanonicalSourceURL source,
                  DownloadDir source],
               WorkingDir := SourceWorkingDir source,
               Writer := ErrWriter (heap s r)\<rparr>),
          next_ref := Suc (next_ref s),
          trace := (if FileExists X (trace s) (SourceWorkingDir source) then trace s
                    else trace s @ [DirCreated (SourceWorkingDir source)])\<rparr>)"
    if "FileExists X (trace s) (SourceWorkingDir source) \<or>
        MkdirAll X (trace s) (SourceWorkingDir source) = None"
    using that
    by (auto simp: addSourceArgs_def newInitOptions_explicit os_MkdirAll_def
        AppendTerraformCliArgs_def modify_def emit_def Let_def fun_eq_iff
        intro!: state.equality TerragruntOptions.equality)
  show ?thesis
  proof (cases "firstArg (TerraformCliArgs (heap s r)) \<noteq> CMD_INIT \<and> \<not> AutoInit (heap s r)")
    case True
    show ?thesis
      unfolding if_P [OF True] using versions refused [OF True] by simp
  next
    case False
    then have pass: "firstArg (TerraformCliArgs (heap s r)) = CMD_INIT \<or> AutoInit (heap s r)"
      by blast
    show ?thesis
    proof (cases "\<not> FileExists X (trace s) (SourceWorkingDir source) \<and>
              MkdirAll X (trace s) (SourceWorkingDir source) \<noteq> None")
      case True
      then obtain e where e: "MkdirAll X (trace s) (SourceWorkingDir source) = Some e"
        by blast
      from True have absent: "\<not> FileExists X (trace s) (SourceWorkingDir source)"
        and error: "MkdirAll X (trace s) (SourceWorkingDir source) \<noteq> None"
        by simp_all
      show ?thesis
        unfolding if_not_P [OF False] if_P [OF True]
        using versions failed [OF absent error]
        by (simp add: runTerraformInit_guard_passes [OF pass] e)
    next
      case no_error: False
      then have ok: "FileExists X (trace s) (SourceWorkingDir source) \<or>
          MkdirAll X (trace s) (SourceWorkingDir source) = None"
        by blast
      show ?thesis
        unfolding if_not_P [OF False] if_not_P [OF no_error]
        using versions built [OF ok]
        by (simp add: runTerraformInit_guard_passes [OF pass])
    qed
  qed
qed

theorem runTerraformInit_source_arguments_witness:
  "fst (runTerraformInit example_ext 0 example_config (Some example_source) example_state) = None
   \<and> trace (snd (runTerraformInit example_ext 0 example_config (Some example_source) example_state)) =
       [DirCreated ''/tmp/download/app'',
        EngineRun
          (example_options
             \<lparr>TerraformCliArgs := [''init'', ''git::https://example.com/modules.git'', ''/tmp/download''],
              WorkingDir := ''/tmp/download/app'', Writer := Stream 2\<rparr>)
          [''init'', ''git::https://example.com/modules.git'', ''/tmp/download'']]
   \<and> fst (runTerraformInit example_ext 0 example_config (Some example_source) beta_state) = None
   \<and> trace (snd (runTerraformInit example_ext 0 example_config (Some example_source) beta_state)) =
       [DirCreated ''/tmp/download/app'',
        EngineRun
          (beta_options
             \<lparr>TerraformCliArgs :=
                [''init'', ''-from-module=git::https://example.com/modules.git'', ''/tmp/download''],
              WorkingDir := ''/tmp/download/app'', Writer := Stream 2\<rparr>)
          [''init'', ''-from-module=git::https://example.com/modules.git'', ''/tmp/download'']]"
proof -
  have guard: "\<not> (firstArg (TerraformCliArgs (heap example_state 0)) \<noteq> CMD_INIT \<and> \<not> AutoInit (heap example_state 0))"
    by (simp add: example_state_def example_options_def)
  have dir: "\<not> (\<not> FileExists example_ext (trace example_state) (SourceWorkingDir example_source) \<and>
        MkdirAll example_ext (trace example_state) (SourceWorkingDir example_source) \<noteq> None)"
    by (simp add: example_ext_def)
  have less: "LessThan (TerraformVersion (heap example_state 0)) v0_10_0"
    by (simp add: example_state_def example_options_def LessThan_def Compare_def v0_10_0_def)
  note run = runTerraformInit_source_arguments [of example_ext 0 example_config example_source example_state,
      THEN conjunct1, unfolded if_not_P [OF guard] if_not_P [OF dir] if_P [OF less]]
  have guard': "\<not> (firstArg (TerraformCliArgs (heap beta_state 0)) \<noteq> CMD_INIT \<and> \<not> AutoInit (heap beta_state 0))"
    by (simp add: beta_state_def beta_options_def example_options_def)
  have dir': "\<not> (\<not> FileExists example_ext (trace beta_state) (SourceWorkingDir example_source) \<and>
        MkdirAll example_ext (trace beta_state) (SourceWorkingDir example_source) \<noteq> None)"
    by (simp add: example_ext_def)
  have not_less: "\<not> LessThan (TerraformVersion (heap beta_state 0)) v0_10_0"
    by (simp add: beta_state_def beta_options_def LessThan_def Compare_def v0_10_0_def)
  note run' = runTerraformInit_source_arguments [of example_ext 0 example_config example_source beta_state,
      THEN conjunct1, unfolded if_not_P [OF guard'] if_not_P [OF dir'] if_not_P [OF not_less]]
  have below: "fst (runTerraformInit example_ext 0 example_config (Some example_source) example_state) = None
   \<and> trace (snd (runTerraformInit example_ext 0 example_config (Some example_source) example_state)) =
       [DirCreated ''/tmp/download/app'',
        EngineRun
          (example_options
             \<lparr>TerraformCliArgs := [''init'', ''git::https://example.com/modules.git'', ''/tmp/download''],
              WorkingDir := ''/tmp/download/app'', Writer := Stream 2\<rparr>)
          [''init'', ''git::https://example.com/modules.git'', ''/tmp/download'']]"
    unfolding run
    by (simp add: runTerragruntWithConfig_init_branch firstArg_def addExtraArgs_def
        prepareInitCommand_def verifySourceDownloadArguments_def shell_RunTerraformCommand_def
        emit_def example_config_def example_state_def example_ext_def example_source_def
        example_options_def CMD_INIT_def)
  have above: "fst (runTerraformInit example_ext 0 example_config (Some example_source) beta_state) = None
   \<and> trace (snd (runTerraformInit example_ext 0 example_config (Some example_source) beta_state)) =
       [DirCreated ''/tmp/download/app'',
        EngineRun
          (beta_options
             \<lparr>TerraformCliArgs :=
                [''init'', ''-from-module=git::https://example.com/modules.git'', ''/tmp/download''],
              WorkingDir := ''/tmp/download/app'', Writer := Stream 2\<rparr>)
          [''init'', ''-from-module=git::https://example.com/modules.git'', ''/tmp/download'']]"
    unfolding run'
    by (simp add: runTerragruntWithConfig_init_branch firstArg_def addExtraArgs_def
        prepareInitCommand_def verifySourceDownloadArguments_def shell_RunTerraformCommand_def
        emit_def example_config_def beta_state_def beta_options_def example_ext_def example_source_def
        example_options_def CMD_INIT_def)
  show ?thesis
    using below above by blast
qed

subsection \<open>The caller's options\<close>

text \<open>
  C7. Every call of \<^verbatim>\<open>runTerraformInit\<close> leaves the caller's options object as it was
  (its forwarded arguments, its working directory, its output stream, and every other
  field), and so every options object that existed before the call: what the call
  changes is the clone, a new object whose argument list is set to
  exactly the init command and whose output stream is the error stream, before the
  source arguments are added and the sub-invocation runs; the clone's output stream is
  still the error stream when the call returns.
\<close>

theorem runTerraformInit_caller_unchanged:
  assumes "r < next_ref s"
  shows "heap (snd (runTerraformInit X r cfg src s)) r = heap s r
   \<and> (\<forall>r' < next_ref s. heap (snd (runTerraformInit X r cfg src s)) r' = heap s r')
   \<and> (firstArg (TerraformCliArgs (heap s r)) = CMD_INIT \<or> AutoInit (heap s r) \<longrightarrow>
        runTerraformInit X r cfg src s =
          (let initOptions = next_ref s;
               s1 = s\<lparr>heap := (heap s)(initOptions := (heap s r)
                          \<lparr>TerraformCliArgs := [CMD_INIT], Writer := ErrWriter (heap s r)\<rparr>),
                      next_ref := Suc (next_ref s)\<rparr>
           in case src of
                None \<Rightarrow> runTerragruntWithConfig X initOptions cfg False s1
              | Some source \<Rightarrow>
                  (case addSourceArgs X r initOptions source s1 of
                     (Some err, s2) \<Rightarrow> (Some err, s2)
                   | (None, s2) \<Rightarrow> runTerragruntWithConfig X initOptions cfg True s2))
        \<and> Writer (heap (snd (runTerraformInit X r cfg src s)) (next_ref s)) = ErrWriter (heap s r))"
proof -
  obtain e s' where run: "runTerraformInit X r cfg src s = (e, s')"
    by (cases "runTerraformInit X r cfg src s")
  have frame: "heap (snd (runTerraformInit X r cfg src s)) r = heap s r"
    using runTerraformInit_frame(3) [OF run assms] by (simp add: run)
  have others: "\<forall>r' < next_ref s. heap (snd (runTerraformInit X r cfg src s)) r' = heap s r'"
    using runTerraformInit_frame(3) [OF run] by (simp add: run)
  have clone: "runTerraformInit X r cfg src s =
          (let initOptions = next_ref s;
               s1 = s\<lparr>heap := (heap s)(initOptions := (heap s r)
                          \<lparr>TerraformCliArgs := [CMD_INIT], Writer := ErrWriter (heap s r)\<rparr>),
                      next_ref := Suc (next_ref s)\<rparr>
           in case src of
                None \<Rightarrow> runTerragruntWithConfig X initOptions cfg False s1
              | Some source \<Rightarrow>
                  (case addSourceArgs X r initOptions source s1 of
                     (Some err, s2) \<Rightarrow> (Some err, s2)
                   | (None, s2) \<Rightarrow> runTerragruntWithConfig X initOptions cfg True s2))"
    if pass: "firstArg (TerraformCliArgs (heap s r)) = CMD_INIT \<or> AutoInit (heap s r)"
    by (cases src) (simp_all add: runTerraformInit_guard_passes [OF pass] newInitOptions_explicit Let_def)
  have writer: "Writer (heap (snd (runTerraformInit X r cfg src s)) (next_ref s)) = ErrWriter (heap s r)"
    if pass: "firstArg (TerraformCliArgs (heap s r)) = CMD_INIT \<or> AutoInit (heap s r)"
  proof -
    let ?i = "next_ref s" and ?s1 = "snd (newInitOptions r s)"
    have w1: "Writer (heap ?s1 ?i) = ErrWriter (heap s r)"
      by (simp add: newInitOptions_explicit)
    show ?thesis
    proof (cases src)
      case None
      then show ?thesis
        using Writer_runTerragruntWithConfig_init [OF init_clone_firstArg, where X = X and cfg = cfg and allow = False and r1 = r and s1 = s and i = ?i] w1
        by (simp add: runTerraformInit_guard_passes [OF pass])
    next
      case (Some source)
      obtain e2 s2 where a: "addSourceArgs X r ?i source ?s1 = (e2, s2)"
        by (cases "addSourceArgs X r ?i source ?s1")
      have w2: "Writer (heap s2 ?i) = ErrWriter (heap s r)"
        using Writer_addSourceArgs [of X r ?i source ?s1 ?i] a w1 by simp
      show ?thesis
      proof (cases e2)
        case None
        have first: "firstArg (TerraformCliArgs (heap s2 ?i)) = CMD_INIT"
          using addSourceArgs_firstArg [of X r ?i source ?s1 s2] a None init_clone_firstArg
          by simp
        show ?thesis
          using Writer_runTerragruntWithConfig_init [OF first, where X = X and cfg = cfg and allow = True and i = ?i]
            w2 a None Some
          by (simp add: runTerraformInit_guard_passes [OF pass])
      next
        case (Some err)
        then show ?thesis
          using w2 a \<open>src = Some source\<close> by (simp add: runTerraformInit_guard_passes [OF pass])
      qed
    qed
  qed
  show ?thesis
    using frame others clone writer by blast
qed

theorem runTerraformInit_caller_unchanged_witness:
  "0 < next_ref example_state
   \<and> (firstArg (TerraformCliArgs (heap example_state 0)) = CMD_INIT \<or> AutoInit (heap example_state 0))
   \<and> heap (snd (runTerraformInit example_ext 0 example_config None example_state)) 0 = example_options
   \<and> Writer (heap (snd (runTerraformInit example_ext 0 example_config None example_state)) 1) = Stream 2"
proof -
  have allocated: "0 < next_ref example_state"
    by (simp add: example_state_def)
  have pass: "firstArg (TerraformCliArgs (heap example_state 0)) = CMD_INIT \<or> AutoInit (heap example_state 0)"
    by (simp add: example_state_def example_options_def)
  note unchanged = runTerraformInit_caller_unchanged [OF allocated, of example_ext example_config None]
  have frame: "heap (snd (runTerraformInit example_ext 0 example_config None example_state)) 0 = heap example_state 0"
    using unchanged by blast
  have writer: "Writer (heap (snd (runTerraformInit example_ext 0 example_config None example_state)) (next_ref example_state))
      = ErrWriter (heap example_state 0)"
    using unchanged pass by blast
  have fixture: "heap example_state 0 = example_options" "next_ref example_state = 1"
      "ErrWriter example_options = Stream 2"
    by (simp_all add: example_state_def example_options_def)
  show ?thesis
    using allocated pass frame writer by (simp only: fixture simp_thms)
qed

subsection \<open>One level of nesting\<close>

text \<open>
  C10. The recursion between \<^verbatim>\<open>runTerragruntWithConfig\<close>, \<^verbatim>\<open>prepareNonInitCommand\<close> and
  \<^verbatim>\<open>runTerraformInit\<close> nests at most once (the three functions are total: their
  termination is proved where they are defined). The sub-invocation \<^verbatim>\<open>runTerraformInit\<close>
  builds for \<^verbatim>\<open>prepareNonInitCommand\<close> has the init command as its first forwarded
  argument, also after the extra arguments are spliced in; a run whose first forwarded
  argument is init takes the init branch (\<^verbatim>\<open>prepareInitCommand\<close>, then the engine) and
  allocates no further options object; so every run allocates at most one.
\<close>

theorem auto_init_nests_once:
  "(firstArg (TerraformCliArgs (heap s r)) = CMD_INIT \<or> AutoInit (heap s r) \<longrightarrow>
      (let initOptions = next_ref s;
           s1 = s\<lparr>heap := (heap s)(initOptions := (heap s r)
                      \<lparr>TerraformCliArgs := [CMD_INIT], Writer := ErrWriter (heap s r)\<rparr>),
                  next_ref := Suc (next_ref s)\<rparr>
       in runTerraformInit X r cfg None s = runTerragruntWithConfig X initOptions cfg False s1
          \<and> firstArg (TerraformCliArgs (heap (addExtraArgs X initOptions cfg s1) initOptions)) = CMD_INIT))
   \<and> (firstArg (TerraformCliArgs (heap s r)) = CMD_INIT \<longrightarrow>
        runTerragruntWithConfig X r cfg allow s =
          (case prepareInitCommand X r cfg allow (addExtraArgs X r cfg s) of
             (Some err, s2) \<Rightarrow> (Some err, s2)
           | (None, s2) \<Rightarrow> shell_RunTerraformCommand X r s2)
        \<and> next_ref (snd (runTerragruntWithConfig X r cfg allow s)) = next_ref s)
   \<and> next_ref (snd (runTerragruntWithConfig X r cfg allow s)) \<le> Suc (next_ref s)"
proof -
  have nested: "(let initOptions = next_ref s;
           s1 = s\<lparr>heap := (heap s)(initOptions := (heap s r)
                      \<lparr>TerraformCliArgs := [CMD_INIT], Writer := ErrWriter (heap s r)\<rparr>),
                  next_ref := Suc (next_ref s)\<rparr>
       in runTerraformInit X r cfg None s = runTerragruntWithConfig X initOptions cfg False s1
          \<and> firstArg (TerraformCliArgs (heap (addExtraArgs X initOptions cfg s1) initOptions)) = CMD_INIT)"
    if pass: "firstArg (TerraformCliArgs (heap s r)) = CMD_INIT \<or> AutoInit (heap s r)"
    using firstArg_addExtraArgs [OF init_clone_firstArg, where X = X and cfg = cfg and r1 = r and s1 = s]
    by (simp add: runTerraformInit_guard_passes [OF pass] newInitOptions_explicit Let_def)
  have init: "runTerragruntWithConfig X r cfg allow s =
          (case prepareInitCommand X r cfg allow (addExtraArgs X r cfg s) of
             (Some err, s2) \<Rightarrow> (Some err, s2)
           | (None, s2) \<Rightarrow> shell_RunTerraformCommand X r s2)
        \<and> next_ref (snd (runTerragruntWithConfig X r cfg allow s)) = next_ref s"
    if first: "firstArg (TerraformCliArgs (heap s r)) = CMD_INIT"
  proof -
    obtain e s' where run: "runTerragruntWithConfig X r cfg allow s = (e, s')"
      by (cases "runTerragruntWithConfig X r cfg allow s")
    show ?thesis
      using runTerragruntWithConfig_init_frame(1) [OF first run] run
        runTerragruntWithConfig_init_branch [OF first, of X cfg allow]
      by simp
  qed
  have bound: "next_ref (snd (runTerragruntWithConfig X r cfg allow s)) \<le> Suc (next_ref s)"
  proof (cases "firstArg (TerraformCliArgs (heap (addExtraArgs X r cfg s) r)) = CMD_INIT")
    case True
    obtain e1 s1 where p: "prepareInitCommand X r cfg allow (addExtraArgs X r cfg s) = (e1, s1)"
      by (cases "prepareInitCommand X r cfg allow (addExtraArgs X r cfg s)")
    have "next_ref s1 = next_ref s"
      using prepareInitCommand_frame(1) [OF p] by (simp add: addExtraArgs_frame)
    then show ?thesis
      using True p
      by (cases e1) (simp_all add: runTerragruntWithConfig.simps shell_RunTerraformCommand_def emit_def)
  next
    case False
    obtain e1 s1 where p: "prepareNonInitCommand X r cfg (addExtraArgs X r cfg s) = (e1, s1)"
      by (cases "prepareNonInitCommand X r cfg (addExtraArgs X r cfg s)")
    have "next_ref s1 \<le> Suc (next_ref s)"
      using prepareNonInitCommand_next_ref [of X r cfg "addExtraArgs X r cfg s"] p
      by (simp add: addExtraArgs_frame)
    then show ?thesis
      using False p
      by (cases e1) (simp_all add: runTerragruntWithConfig.simps shell_RunTerraformCommand_def emit_def)
  qed
  show ?thesis
    using nested init bound by blast
qed

theorem auto_init_nests_once_witness:
  "(firstArg (TerraformCliArgs (heap example_state 0)) = CMD_INIT \<or> AutoInit (heap example_state 0))
   \<and> firstArg (TerraformCliArgs (heap example_state 0)) \<noteq> CMD_INIT
   \<and> firstArg [''init''] = CMD_INIT
   \<and> runTerragruntWithConfig example_ext 0 example_config False example_state =
       (None,
        \<lparr>heap = (\<lambda>_. example_options)
            (1 := example_options\<lparr>TerraformCliArgs := [''init''], Writer := Stream 2\<rparr>),
         next_ref = 2,
         trace =
           [EngineRun (example_options\<lparr>TerraformCliArgs := [''init''], Writer := Stream 2\<rparr>) [''init''],
            EngineRun example_options [''apply'']]\<rparr>)"
proof -
  have pass: "firstArg (TerraformCliArgs (heap example_state 0)) = CMD_INIT \<or> AutoInit (heap example_state 0)"
    by (simp add: example_state_def example_options_def)
  have command: "firstArg (TerraformCliArgs (heap example_state 0)) \<noteq> CMD_INIT"
    by (simp add: example_state_def example_options_def firstArg_def CMD_INIT_def)
  have needed: "needsInit example_ext [] example_options example_config = Inr True"
    by (simp add: needsInit_def providersNeedInit_def util_ListContainsElement_def firstArg_def
        TERRAFORM_COMMANDS_THAT_DO_NOT_NEED_INIT_def example_options_def example_ext_def)
  have nested: "runTerraformInit example_ext 0 example_config None example_state =
      (None,
        \<lparr>heap = (\<lambda>_. example_options)
            (1 := example_options\<lparr>TerraformCliArgs := [''init''], Writer := Stream 2\<rparr>),
         next_ref = 2,
         trace =
           [EngineRun (example_options\<lparr>TerraformCliArgs := [''init''], Writer := Stream 2\<rparr>) [''init'']]\<rparr>)"
  proof -
    let ?clone = "\<lparr>heap = (\<lambda>_. example_options)
            (1 := example_options\<lparr>TerraformCliArgs := [''init''], Writer := Stream 2\<rparr>),
         next_ref = 2, trace = []\<rparr>"
    have init: "firstArg (TerraformCliArgs (heap ?clone 1)) = CMD_INIT"
      by (simp add: firstArg_def CMD_INIT_def)
    have outer: "runTerraformInit example_ext 0 example_config None example_state =
        runTerragruntWithConfig example_ext 1 example_config False ?clone"
      using pass auto_init_nests_once [of example_state 0 example_ext example_config False]
      by (simp add: Let_def example_state_def example_options_def CMD_INIT_def numeral_2_eq_2)
    have branch: "runTerragruntWithConfig example_ext 1 example_config False ?clone =
        (case prepareInitCommand example_ext 1 example_config False
                (addExtraArgs example_ext 1 example_config ?clone) of
           (Some err, s2) \<Rightarrow> (Some err, s2)
         | (None, s2) \<Rightarrow> shell_RunTerraformCommand example_ext 1 s2)"
      using init auto_init_nests_once [of ?clone 1 example_ext example_config False]
      by blast
    show ?thesis
      unfolding outer branch
      by (simp add: firstArg_def addExtraArgs_def
          prepareInitCommand_def verifySourceDownloadArguments_def shell_RunTerraformCommand_def
          emit_def example_config_def example_ext_def example_options_def CMD_INIT_def)
  qed
  have top: "runTerragruntWithConfig example_ext 0 example_config False example_state =
      (case prepareNonInitCommand example_ext 0 example_config example_state of
         (Some err, s2) \<Rightarrow> (Some err, s2)
       | (None, s2) \<Rightarrow> shell_RunTerraformCommand example_ext 0 s2)"
    using command
    by (simp add: runTerragruntWithConfig.simps addExtraArgs_def example_config_def)
  have inner: "prepareNonInitCommand example_ext 0 example_config example_state =
      runTerraformInit example_ext 0 example_config None example_state"
    using needed by (simp add: prepareNonInitCommand.simps example_state_def)
  have args: "TerraformCliArgs example_options = [''apply'']"
    by (simp add: example_options_def)
  have init: "firstArg [''init''] = CMD_INIT"
    by (simp add: firstArg_def CMD_INIT_def)
  show ?thesis
    unfolding top inner nested
    using pass command init
    by (simp add: shell_RunTerraformCommand_def emit_def example_ext_def args)
qed

section \<open>The multi-module commands\<close>

text \<open>
  C8. When the command "destroy-all" is run with non-interactive mode off, a confirmation
  prompt that carries the destroy warning text is shown before anything is destroyed: once
  the stack is found, the stack is logged and the prompt is shown; if the user answers no,
  the stack's Destroy operation is never called (the log line and the prompt are all that
  happens) and the result is a nil error; Destroy is called only on a yes, after the
  prompt. (If the stack cannot be found, or the answer cannot be read, that error is
  returned and nothing is destroyed.)
\<close>

theorem destroy_all_asks_first:
  assumes "\<not> NonInteractive (heap s r)"
  shows "runCommand X ''destroy-all'' r s =
     (case FindStackInSubfolders X (trace s) (heap s r) of
        Inl e \<Rightarrow> (Some (External e), s)
      | Inr stack \<Rightarrow>
          (let asked = s\<lparr>trace := trace s @ [Logged (Stack_String X stack), Prompted DESTROY_ALL_PROMPT]\<rparr>
           in case UserAnswer X (trace s @ [Logged (Stack_String X stack)]) DESTROY_ALL_PROMPT of
                Inl e \<Rightarrow> (Some (External e), asked)
              | Inr yes \<Rightarrow>
                  if yes then
                    (map_option External (Stack_run X (trace asked) Destroy stack (heap s r)),
                     asked\<lparr>trace := trace asked @ [StackRun Destroy stack (heap s r)]\<rparr>)
                  else (None, asked)))
   \<and> strings_HasPrefix DESTROY_ALL_PROMPT ''WARNING: Are you sure you want to run `terragrunt destroy`''
   \<and> strings_Contains DESTROY_ALL_PROMPT ''There is no undo!''"
proof -
  have dispatch: "runCommand X ''destroy-all'' r s = destroyAll X r s"
    by (simp add: runCommand_def isMultiModuleCommand_def util_ListContainsElement_def
        MULTI_MODULE_COMMANDS_def runMultiModuleCommand_def CMD_defs)
  have wording: "strings_HasPrefix DESTROY_ALL_PROMPT ''WARNING: Are you sure you want to run `terragrunt destroy`''
     \<and> strings_Contains DESTROY_ALL_PROMPT ''There is no undo!''"
    by (simp add: DESTROY_ALL_PROMPT_def)
  have "destroyAll X r s =
     (case FindStackInSubfolders X (trace s) (heap s r) of
        Inl e \<Rightarrow> (Some (External e), s)
      | Inr stack \<Rightarrow>
          (let asked = s\<lparr>trace := trace s @ [Logged (Stack_String X stack), Prompted DESTROY_ALL_PROMPT]\<rparr>
           in case UserAnswer X (trace s @ [Logged (Stack_String X stack)]) DESTROY_ALL_PROMPT of
                Inl e \<Rightarrow> (Some (External e), asked)
              | Inr yes \<Rightarrow>
                  if yes then
                    (map_option External (Stack_run X (trace asked) Destroy stack (heap s r)),
                     asked\<lparr>trace := trace asked @ [StackRun Destroy stack (heap s r)]\<rparr>)
                  else (None, asked)))"
    using assms
    by (simp add: destroyAll_def shell_PromptUserForYesNo_def Stack_call_def emit_def Let_def
        split: sum.splits)
  with wording show ?thesis
    by (simp only: dispatch simp_thms)
qed

theorem destroy_all_asks_first_witness:
  "\<not> NonInteractive (heap example_state 0)
   \<and> runCommand example_ext ''destroy-all'' 0 example_state =
       (None, example_state\<lparr>trace := [Logged ''Stack at /live'', Prompted DESTROY_ALL_PROMPT]\<rparr>)"
proof -
  have interactive: "\<not> NonInteractive (heap example_state 0)"
    by (simp add: example_state_def example_options_def)
  have found: "FindStackInSubfolders example_ext h opts = Inr (Stack ''/live'' [])" for h opts
    by (simp add: example_ext_def)
  have answer: "UserAnswer example_ext h prompt = Inr False" for h prompt
    by (simp add: example_ext_def)
  have shown: "Stack_String example_ext stack = ''Stack at /live''" for stack
    by (simp add: example_ext_def)
  have start: "trace example_state = []"
    by (simp add: example_state_def)
  show ?thesis
    using interactive destroy_all_asks_first [OF interactive, of example_ext]
    by (simp add: found answer shown start Let_def)
qed

section \<open>The backend precondition\<close>

subsection \<open>Substrings and matches\<close>

lemma strings_HasPrefix_iff: "strings_HasPrefix s p \<longleftrightarrow> (\<exists>t. s = p @ t)"
  by (induction s p rule: strings_HasPrefix.induct) auto

lemma strings_Contains_iff: "strings_Contains s sub \<longleftrightarrow> (\<exists>p t. s = p @ sub @ t)"
proof (induction s)
  case Nil
  then show ?case by auto
next
  case (Cons c cs)
  show ?case
  proof
    assume "strings_Contains (c # cs) sub"
    then consider "strings_HasPrefix (c # cs) sub" | "strings_Contains cs sub" by auto
    then show "\<exists>p t. c # cs = p @ sub @ t"
    proof cases
      case 1
      then obtain t where "c # cs = sub @ t" by (auto simp: strings_HasPrefix_iff)
      then have "c # cs = [] @ sub @ t" by simp
      then show ?thesis by blast
    next
      case 2
      then obtain p t where "cs = p @ sub @ t" using Cons.IH by blast
      then have "c # cs = (c # p) @ sub @ t" by simp
      then show ?thesis by blast
    qed
  next
    assume "\<exists>p t. c # cs = p @ sub @ t"
    then obtain p t where eq: "c # cs = p @ sub @ t" by blast
    show "strings_Contains (c # cs) sub"
    proof (cases p)
      case Nil
      with eq have "strings_HasPrefix (c # cs) sub" by (auto simp: strings_HasPrefix_iff)
      then show ?thesis by simp
    next
      case (Cons a p')
      with eq have "cs = p' @ sub @ t" by simp
      then have "strings_Contains cs sub" using Cons.IH by blast
      then show ?thesis by simp
    qed
  qed
qed

lemma match_here_Once:
  "match_here ((a, Once) # r) s \<longleftrightarrow> (\<exists>c t. s = c # t \<and> atom_matches a c \<and> match_here r t)"
  by (cases s) auto

lemma match_here_lits:
  "match_here (map (\<lambda>c. (Lit c, Once)) xs @ r) s \<longleftrightarrow> (\<exists>t. s = xs @ t \<and> match_here r t)"
proof (induction xs arbitrary: s)
  case Nil
  then show ?case by simp
next
  case (Cons x xs)
  show ?case
    by (cases s) (auto simp: Cons.IH)
qed

lemma match_here_Star:
  "match_here ((a, Star) # r) s \<longleftrightarrow>
     (\<exists>bs t. s = bs @ t \<and> list_all (atom_matches a) bs \<and> match_here r t)"
proof (induction s)
  case Nil
  then show ?case by auto
next
  case (Cons c cs)
  show ?case
  proof
    assume "match_here ((a, Star) # r) (c # cs)"
    then consider "match_here r (c # cs)" | "atom_matches a c" "match_here ((a, Star) # r) cs"
      by auto
    then show "\<exists>bs t. c # cs = bs @ t \<and> list_all (atom_matches a) bs \<and> match_here r t"
    proof cases
      case 1
      then have "c # cs = [] @ (c # cs) \<and> list_all (atom_matches a) [] \<and> match_here r (c # cs)"
        by simp
      then show ?thesis by blast
    next
      case 2
      then obtain bs t where "cs = bs @ t" "list_all (atom_matches a) bs" "match_here r t"
        using Cons.IH by blast
      then have "c # cs = (c # bs) @ t \<and> list_all (atom_matches a) (c # bs) \<and> match_here r t"
        using 2 by simp
      then show ?thesis by blast
    qed
  next
    assume "\<exists>bs t. c # cs = bs @ t \<and> list_all (atom_matches a) bs \<and> match_here r t"
    then obtain bs t where eq: "c # cs = bs @ t" and all: "list_all (atom_matches a) bs"
      and rest: "match_here r t" by blast
    show "match_here ((a, Star) # r) (c # cs)"
    proof (cases bs)
      case Nil
      with eq rest have "match_here r (c # cs)" by simp
      then show ?thesis by simp
    next
      case (Cons b bs')
      with eq all have "b = c" "cs = bs' @ t" "atom_matches a c" "list_all (atom_matches a) bs'"
        by auto
      then have "match_here ((a, Star) # r) cs" using Cons.IH rest by blast
      with \<open>atom_matches a c\<close> show ?thesis by simp
    qed
  qed
qed

lemma match_here_Plus:
  "match_here ((a, Plus) # r) s \<longleftrightarrow>
     (\<exists>bs t. s = bs @ t \<and> bs \<noteq> [] \<and> list_all (atom_matches a) bs \<and> match_here r t)"
proof (cases s)
  case Nil
  then show ?thesis by simp
next
  case (Cons c cs)
  show ?thesis
  proof
    assume "match_here ((a, Plus) # r) s"
    with Cons have "atom_matches a c" "match_here ((a, Star) # r) cs" by auto
    then obtain bs t where "cs = bs @ t" "list_all (atom_matches a) bs" "match_here r t"
      by (auto simp: match_here_Star)
    with Cons \<open>atom_matches a c\<close>
    have "s = (c # bs) @ t \<and> c # bs \<noteq> [] \<and> list_all (atom_matches a) (c # bs) \<and> match_here r t"
      by simp
    then show "\<exists>bs t. s = bs @ t \<and> bs \<noteq> [] \<and> list_all (atom_matches a) bs \<and> match_here r t"
      by blast
  next
    assume "\<exists>bs t. s = bs @ t \<and> bs \<noteq> [] \<and> list_all (atom_matches a) bs \<and> match_here r t"
    then obtain bs t where eq: "s = bs @ t" and ne: "bs \<noteq> []"
      and all: "list_all (atom_matches a) bs" and rest: "match_here r t" by blast
    from ne obtain b bs' where bs: "bs = b # bs'" by (cases bs) auto
    with eq Cons all have "b = c" "cs = bs' @ t" "atom_matches a c" "list_all (atom_matches a) bs'"
      by auto
    then have "match_here ((a, Star) # r) cs"
      using rest by (auto simp: match_here_Star)
    with \<open>atom_matches a c\<close> Cons show "match_here ((a, Plus) # r) s" by simp
  qed
qed

lemma match_from_iff: "match_from is s \<longleftrightarrow> (\<exists>p t. s = p @ t \<and> match_here is t)"
proof (induction s)
  case Nil
  then show ?case by simp
next
  case (Cons c cs)
  show ?case
  proof
    assume "match_from is (c # cs)"
    then consider "match_here is (c # cs)" | "match_from is cs" by auto
    then show "\<exists>p t. c # cs = p @ t \<and> match_here is t"
    proof cases
      case 1
      then have "c # cs = [] @ (c # cs) \<and> match_here is (c # cs)" by simp
      then show ?thesis by blast
    next
      case 2
      then obtain p t where "cs = p @ t" "match_here is t" using Cons.IH by blast
      then have "c # cs = (c # p) @ t \<and> match_here is t" by simp
      then show ?thesis by blast
    qed
  next
    assume "\<exists>p t. c # cs = p @ t \<and> match_here is t"
    then obtain p t where eq: "c # cs = p @ t" and m: "match_here is t" by blast
    show "match_from is (c # cs)"
    proof (cases p)
      case Nil
      with eq m have "match_here is (c # cs)" by simp
      then show ?thesis by simp
    next
      case (Cons a p')
      with eq have "cs = p' @ t" by simp
      with m have "match_from is cs" using Cons.IH by blast
      then show ?thesis by simp
    qed
  qed
qed

subsection \<open>The two patterns, compiled\<close>

lemma plain_atom:
  assumes "regexp_plain c"
  shows "parse_atom (c # t) = Some (Lit c, t)" and "\<not> is_rep_op c"
  using assms
  by (auto simp: parse_atom_def regexp_plain_def regexp_special_def is_rep_op_def)

lemma regexp_parse_plain:
  assumes "list_all regexp_plain xs" and "rest = [] \<or> \<not> is_rep_op (hd rest)"
  shows "regexp_parse (xs @ rest) =
     (case regexp_parse rest of
        None \<Rightarrow> None
      | Some (Inl e) \<Rightarrow> Some (Inl e)
      | Some (Inr is) \<Rightarrow> Some (Inr (map (\<lambda>c. (Lit c, Once)) xs @ is)))"
  using assms
proof (induction xs)
  case Nil
  then show ?case by (simp split: option.splits sum.splits)
next
  case (Cons c cs)
  then have c: "regexp_plain c" and cs: "list_all regexp_plain cs" by simp_all
  have next_ok: "cs @ rest = [] \<or> \<not> is_rep_op (hd (cs @ rest))"
  proof (cases cs)
    case Nil
    with Cons.prems(2) show ?thesis by simp
  next
    case (Cons d ds)
    with cs have "regexp_plain d" by simp
    with Cons show ?thesis by (simp add: plain_atom(2))
  qed
  have step: "regexp_parse (c # (cs @ rest)) = cons_item (Lit c, Once) (regexp_parse (cs @ rest))"
  proof (cases "cs @ rest")
    case Nil
    then show ?thesis
      by (simp add: regexp_parse.simps plain_atom [OF c] cons_item_def)
  next
    case (Cons r rs)
    with next_ok have "\<not> is_rep_op r" by simp
    with Cons show ?thesis
      by (simp add: regexp_parse.simps plain_atom [OF c])
  qed
  show ?case
    using Cons.IH [OF cs Cons.prems(2)]
    by (simp add: step cons_item_def split: option.splits sum.splits)
qed

lemma regexp_parse_plain_only:
  assumes "list_all regexp_plain xs"
  shows "regexp_parse xs = Some (Inr (map (\<lambda>c. (Lit c, Once)) xs))"
  using regexp_parse_plain [OF assms, of "[]"] by (simp add: regexp_parse.simps)

lemma regexp_parse_blank_plus:
  assumes "\<not> is_rep_op n"
  shows "regexp_parse (''[[:blank:]]+'' @ n # ns) = cons_item (Blank, Plus) (regexp_parse (n # ns))"
  using assms
  by (simp add: regexp_parse.simps parse_atom_def is_rep_op_def skip_lazy_def rep_of_def)

lemma regexp_parse_space_star:
  assumes "\<not> is_rep_op n"
  shows "regexp_parse (''[[:space:]]*'' @ n # ns) = cons_item (Space, Star) (regexp_parse (n # ns))"
  using assms
  by (simp add: regexp_parse.simps parse_atom_def is_rep_op_def skip_lazy_def rep_of_def)

lemma regexp_parse_brace:
  "regexp_parse (CHR ''{'' # CHR ''['' # t) =
     cons_item (Lit CHR ''{'', Once) (regexp_parse (CHR ''['' # t))"
  by (simp add: regexp_parse.simps parse_atom_def is_rep_op_def is_digit_def)

lemma plain_quoted:
  assumes "list_all regexp_plain backendType"
  shows "list_all regexp_plain (CHR 0x22 # backendType @ [CHR 0x22])"
  using assms by (simp add: regexp_plain_def regexp_special_def backslash_def)


lemma regexp_Compile_native:
  assumes "list_all regexp_plain backendType"
  shows "regexp_Compile X (''backend[[:blank:]]+\"'' @ backendType @ ''\"'') =
     Inr (Seq (native_items backendType))"
proof -
  have quoted: "regexp_parse (CHR 0x22 # backendType @ [CHR 0x22]) =
      Some (Inr (map (\<lambda>c. (Lit c, Once)) (CHR 0x22 # backendType @ [CHR 0x22])))"
    by (rule regexp_parse_plain_only [OF plain_quoted [OF assms]])
  have quote: "\<not> is_rep_op (CHR 0x22)"
    by (simp add: is_rep_op_def)
  have blank_part: "regexp_parse (''[[:blank:]]+'' @ CHR 0x22 # backendType @ [CHR 0x22]) =
      Some (Inr ((Blank, Plus) # map (\<lambda>c. (Lit c, Once)) (CHR 0x22 # backendType @ [CHR 0x22])))"
    by (simp only: regexp_parse_blank_plus [OF quote] quoted cons_item_def option.case sum.case)
  have word: "list_all regexp_plain ''backend''"
    by (simp add: regexp_plain_def regexp_special_def backslash_def)
  have "regexp_parse (''backend'' @ ''[[:blank:]]+'' @ CHR 0x22 # backendType @ [CHR 0x22]) =
      Some (Inr (native_items backendType))"
    using regexp_parse_plain [OF word, of "''[[:blank:]]+'' @ CHR 0x22 # backendType @ [CHR 0x22]"]
    by (simp only: blank_part native_items_def option.case sum.case)
       (simp add: is_rep_op_def)
  then show ?thesis
    by (simp add: regexp_Compile_def)
qed


lemma regexp_Compile_json:
  assumes "list_all regexp_plain backendType"
  shows "regexp_Compile X (''(?m)\"backend\":[[:space:]]*{[[:space:]]*\"'' @ backendType @ ''\"'') =
     Inr (Seq (json_items backendType))"
proof -
  let ?q = "CHR 0x22 # backendType @ [CHR 0x22]"
  have quoted: "regexp_parse ?q = Some (Inr (map (\<lambda>c. (Lit c, Once)) ?q))"
    by (rule regexp_parse_plain_only [OF plain_quoted [OF assms]])
  have quote: "\<not> is_rep_op (CHR 0x22)" and brace: "\<not> is_rep_op (CHR ''{'')"
    by (simp_all add: is_rep_op_def)
  have p3: "regexp_parse (''[[:space:]]*'' @ ?q) =
      Some (Inr ((Space, Star) # map (\<lambda>c. (Lit c, Once)) ?q))"
    by (simp only: regexp_parse_space_star [OF quote] quoted cons_item_def option.case sum.case)
  have p2: "regexp_parse (CHR ''{'' # ''[[:space:]]*'' @ ?q) =
      Some (Inr ((Lit CHR ''{'', Once) # (Space, Star) # map (\<lambda>c. (Lit c, Once)) ?q))"
    using regexp_parse_brace [of "''[:space:]]*'' @ ?q"] p3
    by (simp add: cons_item_def)
  have p1: "regexp_parse (''[[:space:]]*'' @ CHR ''{'' # ''[[:space:]]*'' @ ?q) =
      Some (Inr ((Space, Star) # (Lit CHR ''{'', Once) # (Space, Star) # map (\<lambda>c. (Lit c, Once)) ?q))"
    by (simp only: regexp_parse_space_star [OF brace] p2 cons_item_def option.case sum.case)
  have key: "list_all regexp_plain ''\"backend\":''"
    by (simp add: regexp_plain_def regexp_special_def backslash_def)
  have "regexp_parse (''\"backend\":'' @ ''[[:space:]]*'' @ CHR ''{'' # ''[[:space:]]*'' @ ?q) =
      Some (Inr (json_items backendType))"
    using regexp_parse_plain [OF key, of "''[[:space:]]*'' @ CHR ''{'' # ''[[:space:]]*'' @ ?q"]
    by (simp only: p1 json_items_def option.case sum.case)
       (simp add: is_rep_op_def)
  then show ?thesis
    by (simp add: regexp_Compile_def)
qed

lemma blank_chars: "list_all (atom_matches Blank) bs = list_all blank_char bs"
  by (induction bs) (simp_all add: blank_char_def)

lemma space_chars: "list_all (atom_matches Space) bs = list_all space_char bs"
  by (induction bs) (auto simp: space_char_def)

lemma match_here_lits_end:
  "match_here (map (\<lambda>c. (Lit c, Once)) ys) s \<longleftrightarrow> (\<exists>t. s = ys @ t)"
  using match_here_lits [of ys "[]" s] by simp

lemma match_from_plus_between:
  "match_from (map (\<lambda>c. (Lit c, Once)) xs @ (a, Plus) # map (\<lambda>c. (Lit c, Once)) ys) s \<longleftrightarrow>
     (\<exists>bs. bs \<noteq> [] \<and> list_all (atom_matches a) bs \<and> strings_Contains s (xs @ bs @ ys))"
proof
  assume "match_from (map (\<lambda>c. (Lit c, Once)) xs @ (a, Plus) # map (\<lambda>c. (Lit c, Once)) ys) s"
  then obtain p bs t3 where "s = p @ xs @ bs @ ys @ t3" and bs: "bs \<noteq> []" "list_all (atom_matches a) bs"
    unfolding match_from_iff match_here_lits match_here_Plus match_here_lits_end by blast
  then have "s = p @ (xs @ bs @ ys) @ t3" by simp
  then have "strings_Contains s (xs @ bs @ ys)"
    unfolding strings_Contains_iff by blast
  with bs show "\<exists>bs. bs \<noteq> [] \<and> list_all (atom_matches a) bs \<and> strings_Contains s (xs @ bs @ ys)"
    by blast
next
  assume "\<exists>bs. bs \<noteq> [] \<and> list_all (atom_matches a) bs \<and> strings_Contains s (xs @ bs @ ys)"
  then obtain bs p t3 where bs: "bs \<noteq> []" "list_all (atom_matches a) bs"
    and "s = p @ (xs @ bs @ ys) @ t3"
    unfolding strings_Contains_iff by blast
  then have "s = p @ xs @ bs @ ys @ t3" by simp
  with bs show "match_from (map (\<lambda>c. (Lit c, Once)) xs @ (a, Plus) # map (\<lambda>c. (Lit c, Once)) ys) s"
    unfolding match_from_iff match_here_lits match_here_Plus match_here_lits_end by blast
qed

lemma match_here_StarI:
  assumes "list_all (atom_matches a) bs" and "match_here r t"
  shows "match_here ((a, Star) # r) (bs @ t)"
  unfolding match_here_Star [of a r] using assms by blast

lemma match_here_litsI:
  assumes "match_here r t"
  shows "match_here (map (\<lambda>c. (Lit c, Once)) xs @ r) (xs @ t)"
  unfolding match_here_lits [of xs r] using assms by blast

lemma match_from_json_shape:
  "match_from (map (\<lambda>c. (Lit c, Once)) xs @
       (a, Star) # (Lit l, Once) # (b, Star) # map (\<lambda>c. (Lit c, Once)) ys) s \<longleftrightarrow>
     (\<exists>w1 w2. list_all (atom_matches a) w1 \<and> list_all (atom_matches b) w2 \<and>
        strings_Contains s (xs @ w1 @ l # w2 @ ys))"
proof
  assume "match_from (map (\<lambda>c. (Lit c, Once)) xs @
       (a, Star) # (Lit l, Once) # (b, Star) # map (\<lambda>c. (Lit c, Once)) ys) s"
  then obtain p w1 w2 t3 where "s = p @ xs @ w1 @ l # w2 @ ys @ t3"
    and ws: "list_all (atom_matches a) w1" "list_all (atom_matches b) w2"
    unfolding match_from_iff match_here_lits match_here_Star match_here_Once match_here_lits_end
    by auto
  then have "s = p @ (xs @ w1 @ l # w2 @ ys) @ t3" by simp
  then have "strings_Contains s (xs @ w1 @ l # w2 @ ys)"
    unfolding strings_Contains_iff by blast
  with ws show "\<exists>w1 w2. list_all (atom_matches a) w1 \<and> list_all (atom_matches b) w2 \<and>
        strings_Contains s (xs @ w1 @ l # w2 @ ys)"
    by blast
next
  assume "\<exists>w1 w2. list_all (atom_matches a) w1 \<and> list_all (atom_matches b) w2 \<and>
        strings_Contains s (xs @ w1 @ l # w2 @ ys)"
  then obtain w1 w2 p t3 where ws: "list_all (atom_matches a) w1" "list_all (atom_matches b) w2"
    and "s = p @ (xs @ w1 @ l # w2 @ ys) @ t3"
    unfolding strings_Contains_iff by blast
  then have s: "s = p @ xs @ w1 @ l # w2 @ ys @ t3" by simp
  have "match_here (map (\<lambda>c. (Lit c, Once)) ys) (ys @ t3)"
    unfolding match_here_lits_end by blast
  then have "match_here ((b, Star) # map (\<lambda>c. (Lit c, Once)) ys) (w2 @ ys @ t3)"
    by (rule match_here_StarI [OF ws(2)])
  then have "match_here ((Lit l, Once) # (b, Star) # map (\<lambda>c. (Lit c, Once)) ys) (l # w2 @ ys @ t3)"
    by simp
  then have "match_here ((a, Star) # (Lit l, Once) # (b, Star) # map (\<lambda>c. (Lit c, Once)) ys)
      (w1 @ l # w2 @ ys @ t3)"
    by (rule match_here_StarI [OF ws(1)])
  then have "match_here (map (\<lambda>c. (Lit c, Once)) xs @
       (a, Star) # (Lit l, Once) # (b, Star) # map (\<lambda>c. (Lit c, Once)) ys)
      (xs @ w1 @ l # w2 @ ys @ t3)"
    by (rule match_here_litsI)
  with s show "match_from (map (\<lambda>c. (Lit c, Once)) xs @
       (a, Star) # (Lit l, Once) # (b, Star) # map (\<lambda>c. (Lit c, Once)) ys) s"
    unfolding match_from_iff by blast
qed

lemma native_match:
  "match_from (native_items backendType) s \<longleftrightarrow>
     (\<exists>blanks. blanks \<noteq> [] \<and> list_all blank_char blanks \<and>
        strings_Contains s (native_backend_text blanks backendType))"
  unfolding native_items_def native_backend_text_def match_from_plus_between blank_chars
  by simp

lemma json_match:
  "match_from (json_items backendType) s \<longleftrightarrow>
     (\<exists>space1 space2. list_all space_char space1 \<and> list_all space_char space2 \<and>
        strings_Contains s (json_backend_text space1 space2 backendType))"
  unfolding json_items_def json_backend_text_def match_from_json_shape space_chars
  by simp

lemma strings_Contains_middle: "strings_Contains (p @ sub @ t) sub"
  unfolding strings_Contains_iff by blast

lemma BackendNotDefined_Error_names:
  "strings_Contains (BackendNotDefined_Error opts backendType) backendType"
  "strings_Contains (BackendNotDefined_Error opts backendType) (TerragruntConfigPath opts)"
  "strings_Contains (BackendNotDefined_Error opts backendType) (WorkingDir opts)"
proof -
  obtain a b c d where shape:
    "BackendNotDefined_Error opts backendType =
       a @ TerragruntConfigPath opts @ b @ WorkingDir opts @ c @ backendType @ d"
    unfolding BackendNotDefined_Error_def by (metis append_assoc)
  have "BackendNotDefined_Error opts backendType =
      (a @ TerragruntConfigPath opts @ b @ WorkingDir opts @ c) @ backendType @ d"
    by (simp add: shape)
  then show "strings_Contains (BackendNotDefined_Error opts backendType) backendType"
    using strings_Contains_middle by metis
  have "BackendNotDefined_Error opts backendType =
      a @ TerragruntConfigPath opts @ (b @ WorkingDir opts @ c @ backendType @ d)"
    by (simp add: shape)
  then show "strings_Contains (BackendNotDefined_Error opts backendType) (TerragruntConfigPath opts)"
    using strings_Contains_middle by metis
  have "BackendNotDefined_Error opts backendType =
      (a @ TerragruntConfigPath opts @ b) @ WorkingDir opts @ (c @ backendType @ d)"
    by (simp add: shape)
  then show "strings_Contains (BackendNotDefined_Error opts backendType) (WorkingDir opts)"
    using strings_Contains_middle by metis
qed

lemma regexp_Match_native: "regexp_Match (Seq (native_items backendType)) = declares_native backendType"
  by (rule ext) (simp add: native_match declares_native_def)

lemma regexp_Match_json: "regexp_Match (Seq (json_items backendType)) = declares_json backendType"
  by (rule ext) (simp add: json_match declares_json_def)

lemma checkTerraformCodeDefinesBackend_native:
  assumes "list_all regexp_plain backendType"
    and "ReadGlob X h (WorkingDir opts @ ''/**/*.tf'') = Inr tfs"
    and "list_ex (declares_native backendType) tfs"
  shows "checkTerraformCodeDefinesBackend X h opts backendType = None"
  unfolding checkTerraformCodeDefinesBackend_def regexp_Compile_native [OF assms(1)]
  using assms(2,3)
  by (simp add: util_Grep_def regexp_Match_native)

lemma checkTerraformCodeDefinesBackend_both:
  assumes "list_all regexp_plain backendType"
    and "ReadGlob X h (WorkingDir opts @ ''/**/*.tf'') = Inr tfs"
    and "ReadGlob X h (WorkingDir opts @ ''/**/*.tf.json'') = Inr jsons"
  shows "checkTerraformCodeDefinesBackend X h opts backendType =
     (if list_ex (declares_native backendType) tfs \<or> list_ex (declares_json backendType) jsons
      then None else Some (BackendNotDefined opts backendType))"
  unfolding checkTerraformCodeDefinesBackend_def regexp_Compile_native [OF assms(1)]
    regexp_Compile_json [OF assms(1)]
  using assms(2,3)
  by (simp add: util_Grep_def regexp_Match_native regexp_Match_json)

lemmas regexp_eval =
  regexp_Compile_def regexp_parse.simps parse_atom_def is_rep_op_def skip_lazy_def rep_of_def
  cons_item_def regexp_plain_def regexp_special_def backslash_def is_digit_def

lemma MODULE_REGEX_compiled: "regexp_Compile X MODULE_REGEX_pattern = Inr MODULE_REGEX"
  by (simp add: MODULE_REGEX_pattern_def MODULE_REGEX_def regexp_eval)

subsection \<open>The check\<close>

text \<open>
  C5, as stated, fails: the backend type is spliced into the pattern as it is, so a type
  with a character that the pattern syntax gives a meaning is not looked for literally.
  For the type \<^verbatim>\<open>a+b\<close> the module below contains the literal block
  \<^verbatim>\<open>backend "a+b" {}\<close>, and the check still returns BackendNotDefined.
\<close>

theorem backend_type_with_plus_not_found:
  "strings_Contains plus_module ''backend \"a+b\" {}''
   \<and> ReadGlob (tree_ext [plus_module] []) [] (WorkingDir example_options @ ''/**/*.tf'') = Inr [plus_module]
   \<and> checkTerraformCodeDefinesBackend (tree_ext [plus_module] []) [] example_options ''a+b''
       = Some (BackendNotDefined example_options ''a+b'')"
proof -
  have dir: "WorkingDir example_options = ''/live''"
    by (simp add: example_options_def)
  have present: "strings_Contains plus_module ''backend \"a+b\" {}''"
    by (simp add: plus_module_def)
  have tf: "ReadGlob (tree_ext [plus_module] []) [] (WorkingDir example_options @ ''/**/*.tf'') = Inr [plus_module]"
    and json: "ReadGlob (tree_ext [plus_module] []) [] (WorkingDir example_options @ ''/**/*.tf.json'') = Inr []"
    by (simp_all add: tree_ext_def dir)
  have native: "regexp_Compile (tree_ext [plus_module] []) (''backend[[:blank:]]+\"'' @ ''a+b'' @ ''\"'') =
      Inr (Seq (map (\<lambda>c. (Lit c, Once)) ''backend'' @
                [(Blank, Plus), (Lit CHR 0x22, Once), (Lit CHR ''a'', Plus), (Lit CHR ''b'', Once),
                 (Lit CHR 0x22, Once)]))"
    by (simp add: regexp_eval)
  have object: "regexp_Compile (tree_ext [plus_module] [])
        (''(?m)\"backend\":[[:space:]]*{[[:space:]]*\"'' @ ''a+b'' @ ''\"'') =
      Inr (Seq (map (\<lambda>c. (Lit c, Once)) ''\"backend\":'' @
                [(Space, Star), (Lit CHR ''{'', Once), (Space, Star), (Lit CHR 0x22, Once),
                 (Lit CHR ''a'', Plus), (Lit CHR ''b'', Once), (Lit CHR 0x22, Once)]))"
    by (simp add: regexp_eval)
  have missed: "\<not> match_from (map (\<lambda>c. (Lit c, Once)) ''backend'' @
                [(Blank, Plus), (Lit CHR 0x22, Once), (Lit CHR ''a'', Plus), (Lit CHR ''b'', Once),
                 (Lit CHR 0x22, Once)]) plus_module"
    by (simp add: plus_module_def)
  have "checkTerraformCodeDefinesBackend (tree_ext [plus_module] []) [] example_options ''a+b''
       = Some (BackendNotDefined example_options ''a+b'')"
    unfolding checkTerraformCodeDefinesBackend_def native object
    using missed by (simp add: util_Grep_def tf json)
  with present tf show ?thesis by simp
qed

text \<open>
  C5, amended. For every backend type B made of plain characters (ASCII, none of the
  characters the pattern syntax gives a meaning), when the two scans can be read: if the
  text of some \<^verbatim>\<open>*.tf\<close> file under the working directory contains a native-syntax
  declaration naming B (for this part the \<^verbatim>\<open>*.tf.json\<close> files are not read), or the
  text of some \<^verbatim>\<open>*.tf.json\<close> file contains the JSON-object declaration naming B,
  \<^verbatim>\<open>checkTerraformCodeDefinesBackend\<close> returns nil; otherwise, so in particular if every
  declaration in those texts names another type, it returns a BackendNotDefined error
  with B and the options (config path, working directory), and the message of that error
  contains all three.
\<close>

theorem checkTerraformCodeDefinesBackend_plain_type:
  assumes "list_all regexp_plain backendType"
    and "ReadGlob X h (WorkingDir opts @ ''/**/*.tf'') = Inr tfs"
  shows "(list_ex (declares_native backendType) tfs \<longrightarrow>
            checkTerraformCodeDefinesBackend X h opts backendType = None)
     \<and> (ReadGlob X h (WorkingDir opts @ ''/**/*.tf.json'') = Inr jsons \<longrightarrow>
          checkTerraformCodeDefinesBackend X h opts backendType =
            (if list_ex (declares_native backendType) tfs \<or> list_ex (declares_json backendType) jsons
             then None else Some (BackendNotDefined opts backendType))
          \<and> ((\<forall>s \<in> set tfs. \<forall>other. declares_native other s \<longrightarrow> other \<noteq> backendType) \<and>
              (\<forall>s \<in> set jsons. \<forall>other. declares_json other s \<longrightarrow> other \<noteq> backendType) \<longrightarrow>
                checkTerraformCodeDefinesBackend X h opts backendType =
                  Some (BackendNotDefined opts backendType)))
     \<and> strings_Contains (BackendNotDefined_Error opts backendType) backendType
     \<and> strings_Contains (BackendNotDefined_Error opts backendType) (TerragruntConfigPath opts)
     \<and> strings_Contains (BackendNotDefined_Error opts backendType) (WorkingDir opts)"
proof -
  have other: "checkTerraformCodeDefinesBackend X h opts backendType = Some (BackendNotDefined opts backendType)"
    if both: "ReadGlob X h (WorkingDir opts @ ''/**/*.tf.json'') = Inr jsons"
      and only: "(\<forall>s \<in> set tfs. \<forall>other. declares_native other s \<longrightarrow> other \<noteq> backendType) \<and>
              (\<forall>s \<in> set jsons. \<forall>other. declares_json other s \<longrightarrow> other \<noteq> backendType)"
  proof -
    from only have "\<not> list_ex (declares_native backendType) tfs"
      and "\<not> list_ex (declares_json backendType) jsons"
      by (auto simp: list_ex_iff)
    then show ?thesis
      by (simp add: checkTerraformCodeDefinesBackend_both [OF assms both])
  qed
  show ?thesis
    using checkTerraformCodeDefinesBackend_native [OF assms]
      checkTerraformCodeDefinesBackend_both [OF assms] other
      BackendNotDefined_Error_names [of opts backendType]
    by blast
qed

theorem checkTerraformCodeDefinesBackend_plain_type_witness:
  "list_all regexp_plain ''s3''
   \<and> list_all regexp_plain ''gcs''
   \<and> ReadGlob (tree_ext [s3_module] []) [] (WorkingDir example_options @ ''/**/*.tf'') = Inr [s3_module]
   \<and> ReadGlob (tree_ext [s3_module] []) [] (WorkingDir example_options @ ''/**/*.tf.json'') = Inr []
   \<and> list_ex (declares_native ''s3'') [s3_module]
   \<and> \<not> list_ex (declares_native ''gcs'') [s3_module]
   \<and> checkTerraformCodeDefinesBackend (tree_ext [s3_module] []) [] example_options ''s3'' = None
   \<and> checkTerraformCodeDefinesBackend (tree_ext [s3_module] []) [] example_options ''gcs''
       = Some (BackendNotDefined example_options ''gcs'')"
proof -
  have dir: "WorkingDir example_options = ''/live''"
    by (simp add: example_options_def)
  have s3: "list_all regexp_plain ''s3''" and gcs: "list_all regexp_plain ''gcs''"
    by (simp_all add: regexp_plain_def regexp_special_def backslash_def)
  have tf: "ReadGlob (tree_ext [s3_module] []) [] (WorkingDir example_options @ ''/**/*.tf'') = Inr [s3_module]"
    and json: "ReadGlob (tree_ext [s3_module] []) [] (WorkingDir example_options @ ''/**/*.tf.json'') = Inr []"
    by (simp_all add: tree_ext_def dir)
  have declared: "list_ex (declares_native ''s3'') [s3_module]"
    unfolding regexp_Match_native [symmetric]
    by (simp add: native_items_def s3_module_def)
  have other: "\<not> list_ex (declares_native ''gcs'') [s3_module]"
    unfolding regexp_Match_native [symmetric]
    by (simp add: native_items_def s3_module_def)
  have only: "(\<forall>s \<in> set [s3_module]. \<forall>other. declares_native other s \<longrightarrow> other \<noteq> ''gcs'') \<and>
      (\<forall>s \<in> set []. \<forall>other. declares_json other s \<longrightarrow> other \<noteq> ''gcs'')"
    using other by auto
  note found = checkTerraformCodeDefinesBackend_plain_type [OF s3 tf, of "[]"]
  note missing = checkTerraformCodeDefinesBackend_plain_type [OF gcs tf, of "[]"]
  have "checkTerraformCodeDefinesBackend (tree_ext [s3_module] []) [] example_options ''s3'' = None"
    using found declared by blast
  moreover have "checkTerraformCodeDefinesBackend (tree_ext [s3_module] []) [] example_options ''gcs''
       = Some (BackendNotDefined example_options ''gcs'')"
    using missing json only by blast
  ultimately show ?thesis
    using s3 gcs tf json declared other by simp
qed

end
